theory Spec2Isabelle
  imports Complex_Main
begin

section \<open>JavaScript values\<close>

text \<open>
  The route handlers of \<^verbatim>\<open>src/app/api/transactions/route.ts\<close> work on untyped JavaScript
  values: the body of a request, the response envelope of the vision model and the JSON
  the model emits. A number is an IEEE double; the finite ones are kept as the rational
  they denote (the sign of zero is not kept), which is exact for every comparison and
  integrality test the handlers make. A string is a list of code units; \<^typ>\<open>char\<close>
  covers the code units below 256. An object is the list of its own properties; reading a
  property takes the first binding of the key.
\<close>

datatype jsnum = Fin rat | PosInf | NegInf | NaN

datatype jsval =
    VUndefined
  | VNull
  | VBool bool
  | VNum jsnum
  | VStr string
  | VArr "jsval list"
  | VObj "(string \<times> jsval) list"

text \<open>\<^verbatim>\<open>v?.k\<close> for the keys the handlers read: none of them is a property of a string,
  an array, a number or a boolean, so everything but an object gives \<^verbatim>\<open>undefined\<close>.\<close>

fun get_prop :: "jsval \<Rightarrow> string \<Rightarrow> jsval" where
  "get_prop (VObj kvs) k = (case map_of kvs k of Some v \<Rightarrow> v | None \<Rightarrow> VUndefined)"
| "get_prop v k = VUndefined"

text \<open>\<^verbatim>\<open>k in obj\<close> on an object.\<close>

definition has_key :: "(string \<times> jsval) list \<Rightarrow> string \<Rightarrow> bool" where
  "has_key kvs k = (map_of kvs k \<noteq> None)"

text \<open>\<^verbatim>\<open>Number.isFinite\<close>.\<close>

fun isFinite :: "jsnum \<Rightarrow> bool" where
  "isFinite (Fin q) = True"
| "isFinite n = False"

text \<open>\<^verbatim>\<open>a <= b\<close> on numbers: every comparison with NaN is false.\<close>

fun num_le :: "jsnum \<Rightarrow> jsnum \<Rightarrow> bool" where
  "num_le NaN b = False"
| "num_le a NaN = False"
| "num_le NegInf b = True"
| "num_le a PosInf = True"
| "num_le (Fin a) (Fin b) = (a \<le> b)"
| "num_le a b = False"

text \<open>\<^verbatim>\<open>a < b\<close> on numbers.\<close>

definition num_lt :: "jsnum \<Rightarrow> jsnum \<Rightarrow> bool" where
  "num_lt a b = (num_le a b \<and> a \<noteq> b)"

text \<open>\<^verbatim>\<open>Number.isInteger\<close>.\<close>

fun isInteger :: "jsnum \<Rightarrow> bool" where
  "isInteger (Fin q) = (of_int \<lfloor>q\<rfloor> = q)"
| "isInteger n = False"

subsection \<open>Strings\<close>

text \<open>\<^verbatim>\<open>String.prototype.trim\<close> removes white space and line terminators from both ends;
  below 256 these are TAB, LF, VT, FF, CR, SP and NBSP.\<close>

definition is_ws :: "char \<Rightarrow> bool" where
  "is_ws c = (of_char c \<in> set [9, 10, 11, 12, 13, 32, 160 :: nat])"

definition trim :: "string \<Rightarrow> string" where
  "trim s = rev (dropWhile is_ws (rev (dropWhile is_ws s)))"

text \<open>\<^verbatim>\<open>String.prototype.toUpperCase\<close> on the code units below 256, one code unit at a
  time: the ASCII and the Latin-1 small letters go to their capitals, \<^verbatim>\<open>U+00DF\<close> (sharp
  s) goes to \<^verbatim>\<open>SS\<close>, and all other code units stay. The capitals of \<^verbatim>\<open>U+00B5\<close> (micro
  sign) and \<^verbatim>\<open>U+00FF\<close> are \<^verbatim>\<open>U+039C\<close> and \<^verbatim>\<open>U+0178\<close>, which lie outside the code
  units of this model: for these two the result is left unspecified, so that nothing is
  proved about it.\<close>

definition upper_unit :: "char \<Rightarrow> string" where
  "upper_unit c = (let n = of_char c :: nat in
     if 97 \<le> n \<and> n \<le> 122 then [char_of (n - 32)]
     else if n = 223 then ''SS''
     else if (224 \<le> n \<and> n \<le> 246) \<or> (248 \<le> n \<and> n \<le> 254) then [char_of (n - 32)]
     else if n = 181 \<or> n = 255 then undefined c
     else [c])"

definition toUpperCase :: "string \<Rightarrow> string" where
  "toUpperCase s = concat (map upper_unit s)"

definition is_digit :: "char \<Rightarrow> bool" where
  "is_digit c = (let n = of_char c :: nat in 48 \<le> n \<and> n \<le> 57)"

text \<open>\<^verbatim>\<open>/^\d{4}-\d{2}-\d{2}$/.test(s)\<close>: no flag is set, so \<^verbatim>\<open>$\<close> is the end of the
  string and \<^verbatim>\<open>\d\<close> an ASCII digit.\<close>

fun iso_date_regex :: "string \<Rightarrow> bool" where
  "iso_date_regex [y1, y2, y3, y4, d1, m1, m2, d2, t1, t2] =
     (is_digit y1 \<and> is_digit y2 \<and> is_digit y3 \<and> is_digit y4 \<and> d1 = CHR ''-'' \<and>
      is_digit m1 \<and> is_digit m2 \<and> d2 = CHR ''-'' \<and> is_digit t1 \<and> is_digit t2)"
| "iso_date_regex s = False"

text \<open>\<^verbatim>\<open>s.replace(/"/g, "")\<close>.\<close>

definition strip_quotes :: "string \<Rightarrow> string" where
  "strip_quotes s = filter (\<lambda>c. c \<noteq> CHR 0x22) s"

subsection \<open>Number(string)\<close>

text \<open>
  \<^verbatim>\<open>Number(s)\<close> on a string follows the StringToNumber grammar of ECMAScript: white
  space is trimmed, the empty string is 0, a literal is \<^verbatim>\<open>Infinity\<close> or a decimal literal
  with an optional sign, fraction and exponent, or an unsigned literal in base 16, 8 or 2;
  anything else is NaN. The mathematical value is then rounded to the nearest double,
  ties to even, overflowing to an infinity.
\<close>

definition pow2 :: "int \<Rightarrow> rat" where
  "pow2 e = (if 0 \<le> e then 2 ^ nat e else 1 / 2 ^ nat (- e))"

definition pow10 :: "int \<Rightarrow> rat" where
  "pow10 e = (if 0 \<le> e then 10 ^ nat e else 1 / 10 ^ nat (- e))"

text \<open>The number of binary digits of a positive integer.\<close>

function bitlen :: "int \<Rightarrow> int" where
  "bitlen n = (if n \<le> 0 then 0 else 1 + bitlen (n div 2))"
  by pat_completeness auto
termination
  by (relation "measure nat") auto

text \<open>The exponent \<open>e\<close> with \<open>2 ^ e \<le> a < 2 ^ (e + 1)\<close>, for \<open>a > 0\<close>, from the bit
  lengths of the numerator and the denominator.\<close>

definition ilog2 :: "rat \<Rightarrow> int" where
  "ilog2 a = (let (n, d) = quotient_of a; k = bitlen n - bitlen d
              in if pow2 k \<le> a then k else k - 1)"

definition round_half_even :: "rat \<Rightarrow> int" where
  "round_half_even x = (let f = \<lfloor>x\<rfloor>; d = x - of_int f in
     if d < 1 / 2 then f else if 1 / 2 < d then f + 1 else if even f then f else f + 1)"

definition to_double :: "rat \<Rightarrow> jsnum" where
  "to_double q = (if q = 0 then Fin 0 else
     let a = \<bar>q\<bar>;
         e = max (ilog2 a) (- 1022);
         ulp = pow2 (e - 52);
         r = of_int (round_half_even (a / ulp)) * ulp
     in if pow2 1024 \<le> r then (if 0 < q then PosInf else NegInf)
        else Fin (if 0 < q then r else - r))"

definition digit_val :: "char \<Rightarrow> int" where
  "digit_val c = (let n = of_char c :: int in
     if 48 \<le> n \<and> n \<le> 57 then n - 48
     else if 97 \<le> n \<and> n \<le> 102 then n - 87
     else if 65 \<le> n \<and> n \<le> 70 then n - 55
     else 16)"

definition digits_val :: "int \<Rightarrow> string \<Rightarrow> int" where
  "digits_val b ds = foldl (\<lambda>a c. b * a + digit_val c) 0 ds"

definition all_digits :: "int \<Rightarrow> string \<Rightarrow> bool" where
  "all_digits b ds = (ds \<noteq> [] \<and> list_all (\<lambda>c. digit_val c < b) ds)"

text \<open>NonDecimalIntegerLiteral: \<^verbatim>\<open>0x\<close>, \<^verbatim>\<open>0o\<close> or \<^verbatim>\<open>0b\<close> (either case) and digits.\<close>

fun non_decimal :: "string \<Rightarrow> int option" where
  "non_decimal (z # p # ds) =
     (let b = (if p \<in> set ''xX'' then 16 else if p \<in> set ''oO'' then 8
               else if p \<in> set ''bB'' then 2 else 0 :: int)
      in if z = CHR ''0'' \<and> 0 < b \<and> all_digits b ds then Some (digits_val b ds) else None)"
| "non_decimal s = None"

text \<open>ExponentPart, or nothing: \<^verbatim>\<open>e\<close> or \<^verbatim>\<open>E\<close>, an optional sign, digits.\<close>

fun exponent_part :: "string \<Rightarrow> int option" where
  "exponent_part [] = Some 0"
| "exponent_part (c # r) =
     (if c \<in> set ''eE'' then
        (case r of
           [] \<Rightarrow> None
         | s # ds \<Rightarrow>
             if s = CHR ''-'' then (if all_digits 10 ds then Some (- digits_val 10 ds) else None)
             else if s = CHR ''+'' then (if all_digits 10 ds then Some (digits_val 10 ds) else None)
             else (if all_digits 10 r then Some (digits_val 10 r) else None))
      else None)"

text \<open>StrUnsignedDecimalLiteral without \<^verbatim>\<open>Infinity\<close>: digits, an optional point and
  digits (one of the two digit runs is not empty), an optional exponent.\<close>

definition unsigned_decimal :: "string \<Rightarrow> rat option" where
  "unsigned_decimal u =
     (let ip = takeWhile is_digit u; r1 = dropWhile is_digit u;
          fp = (case r1 of [] \<Rightarrow> [] | c # r \<Rightarrow> if c = CHR ''.'' then takeWhile is_digit r else []);
          r2 = (case r1 of [] \<Rightarrow> [] | c # r \<Rightarrow> if c = CHR ''.'' then dropWhile is_digit r else r1)
      in if ip = [] \<and> fp = [] then None
         else (case exponent_part r2 of
                 None \<Rightarrow> None
               | Some e \<Rightarrow> Some (of_int (digits_val 10 (ip @ fp)) * pow10 (e - int (length fp)))))"

definition Number_of_string :: "string \<Rightarrow> jsnum" where
  "Number_of_string s =
     (let t = trim s in
      if t = [] then Fin 0
      else (case non_decimal t of
              Some n \<Rightarrow> to_double (of_int n)
            | None \<Rightarrow>
                (let neg = (hd t = CHR ''-'');
                     u = (if hd t = CHR ''-'' \<or> hd t = CHR ''+'' then tl t else t)
                 in if u = ''Infinity'' then (if neg then NegInf else PosInf)
                    else (case unsigned_decimal u of
                            None \<Rightarrow> NaN
                          | Some q \<Rightarrow> to_double (if neg then - q else q)))))"

section \<open>Zod schemas\<close>

text \<open>
  The handlers validate with the zod library. A schema is the function its \<^verbatim>\<open>parse\<close>
  method computes: it returns the parsed value or throws a \<^verbatim>\<open>ZodError\<close>. The package
  version is not pinned by the sources, and two behaviours differ between the major
  versions 3 and 4 that \<^verbatim>\<open>import { z } from "zod"\<close> can resolve to, so the version is
  a parameter: whether an optional wrapper hands \<^verbatim>\<open>undefined\<close> on to a default inside it
  (4 does, 3 does not), and whether \<^verbatim>\<open>int()\<close> and \<^verbatim>\<open>number()\<close> take unsafe integers
  and infinities (3 does, 4 does not). A schema carries zod 4's \<^verbatim>\<open>optin\<close> flag, which
  its optional wrapper reads.
\<close>

datatype exn =
    ZodError
  | SyntaxError
  | AbortError
  | NetworkError string
  | JsError string

datatype zod_version = Zod3 | Zod4

record schema =
  run :: "jsval \<Rightarrow> exn + jsval"
  optin :: bool

definition z_string :: schema where
  "z_string = \<lparr>run = (\<lambda>v. case v of VStr s \<Rightarrow> Inr v | _ \<Rightarrow> Inl ZodError), optin = False\<rparr>"

definition z_null :: schema where
  "z_null = \<lparr>run = (\<lambda>v. case v of VNull \<Rightarrow> Inr v | _ \<Rightarrow> Inl ZodError), optin = False\<rparr>"

text \<open>\<^verbatim>\<open>.min(n)\<close> on a string schema.\<close>

definition z_min_length :: "nat \<Rightarrow> schema \<Rightarrow> schema" where
  "z_min_length n s =
     \<lparr>run = (\<lambda>v. case run s v of
                    Inr (VStr t) \<Rightarrow> if n \<le> length t then Inr (VStr t) else Inl ZodError
                  | r \<Rightarrow> r),
      optin = optin s\<rparr>"

text \<open>\<^verbatim>\<open>z.number()\<close> refuses NaN; zod 4 refuses the infinities too.\<close>

definition z_number :: "zod_version \<Rightarrow> schema" where
  "z_number ver =
     \<lparr>run = (\<lambda>v. case v of
                    VNum (Fin q) \<Rightarrow> Inr v
                  | VNum NaN \<Rightarrow> Inl ZodError
                  | VNum n \<Rightarrow> if ver = Zod3 then Inr v else Inl ZodError
                  | _ \<Rightarrow> Inl ZodError),
      optin = False\<rparr>"

text \<open>A check added to a schema: the value the schema accepts must pass it.\<close>

definition z_refine :: "(jsval \<Rightarrow> bool) \<Rightarrow> schema \<Rightarrow> schema" where
  "z_refine ok s =
     \<lparr>run = (\<lambda>v. case run s v of
                    Inr w \<Rightarrow> if ok w then Inr w else Inl ZodError
                  | Inl e \<Rightarrow> Inl e),
      optin = optin s\<rparr>"

text \<open>\<^verbatim>\<open>.int()\<close>: \<^verbatim>\<open>Number.isInteger\<close>, and in zod 4 the safe integer range.\<close>

definition max_safe_integer :: rat where
  "max_safe_integer = 2 ^ 53 - 1"

definition int_check :: "zod_version \<Rightarrow> jsval \<Rightarrow> bool" where
  "int_check ver v = (case v of
       VNum n \<Rightarrow> isInteger n \<and>
         (ver = Zod3 \<or> (num_le (Fin (- max_safe_integer)) n \<and> num_le n (Fin max_safe_integer)))
     | _ \<Rightarrow> False)"

definition z_int :: "zod_version \<Rightarrow> schema \<Rightarrow> schema" where
  "z_int ver s = z_refine (int_check ver) s"

text \<open>\<^verbatim>\<open>.min(b)\<close>, \<^verbatim>\<open>.nonnegative()\<close> (which is \<^verbatim>\<open>.min(0)\<close>) and \<^verbatim>\<open>.max(b)\<close> on a
  number schema.\<close>

definition z_gte :: "jsnum \<Rightarrow> schema \<Rightarrow> schema" where
  "z_gte b s = z_refine (\<lambda>v. case v of VNum n \<Rightarrow> num_le b n | _ \<Rightarrow> False) s"

definition z_lte :: "jsnum \<Rightarrow> schema \<Rightarrow> schema" where
  "z_lte b s = z_refine (\<lambda>v. case v of VNum n \<Rightarrow> num_le n b | _ \<Rightarrow> False) s"

definition z_enum :: "string list \<Rightarrow> schema" where
  "z_enum names =
     \<lparr>run = (\<lambda>v. case v of
                    VStr s \<Rightarrow> if s \<in> set names then Inr v else Inl ZodError
                  | _ \<Rightarrow> Inl ZodError),
      optin = False\<rparr>"

definition z_nullable :: "schema \<Rightarrow> schema" where
  "z_nullable s = \<lparr>run = (\<lambda>v. if v = VNull then Inr VNull else run s v), optin = optin s\<rparr>"

text \<open>\<^verbatim>\<open>.optional()\<close>. In zod 3 \<^verbatim>\<open>undefined\<close> is returned at once; in zod 4 it is first
  offered to an inner schema that takes \<^verbatim>\<open>undefined\<close> itself (a default).\<close>

definition z_optional :: "zod_version \<Rightarrow> schema \<Rightarrow> schema" where
  "z_optional ver s =
     \<lparr>run = (\<lambda>v. if ver = Zod4 \<and> optin s then run s v
                  else if v = VUndefined then Inr VUndefined
                  else run s v),
      optin = True\<rparr>"

text \<open>\<^verbatim>\<open>.default(d)\<close>. zod 3 parses the default with the inner schema; zod 4 returns it
  as it is, and also puts it in place of an \<^verbatim>\<open>undefined\<close> result.\<close>

definition z_default :: "zod_version \<Rightarrow> jsval \<Rightarrow> schema \<Rightarrow> schema" where
  "z_default ver d s =
     \<lparr>run = (\<lambda>v. if ver = Zod3 then run s (if v = VUndefined then d else v)
                  else if v = VUndefined then Inr d
                  else (case run s v of Inr VUndefined \<Rightarrow> Inr d | r \<Rightarrow> r)),
      optin = True\<rparr>"

text \<open>\<^verbatim>\<open>z.preprocess(f, s)\<close>: \<open>f\<close> sees every input, \<^verbatim>\<open>undefined\<close> too.\<close>

definition z_preprocess :: "(jsval \<Rightarrow> jsval) \<Rightarrow> schema \<Rightarrow> schema" where
  "z_preprocess f s = \<lparr>run = (\<lambda>v. run s (f v)), optin = False\<rparr>"

text \<open>\<^verbatim>\<open>s.transform(f)\<close>.\<close>

definition z_transform :: "(jsval \<Rightarrow> jsval) \<Rightarrow> schema \<Rightarrow> schema" where
  "z_transform f s =
     \<lparr>run = (\<lambda>v. case run s v of Inr w \<Rightarrow> Inr (f w) | Inl e \<Rightarrow> Inl e), optin = optin s\<rparr>"

text \<open>\<^verbatim>\<open>z.union([...])\<close>: the first option that accepts the input.\<close>

fun union_run :: "schema list \<Rightarrow> jsval \<Rightarrow> exn + jsval" where
  "union_run [] v = Inl ZodError"
| "union_run (s # ss) v = (case run s v of Inr w \<Rightarrow> Inr w | Inl e \<Rightarrow> union_run ss v)"

definition z_union :: "schema list \<Rightarrow> schema" where
  "z_union ss = \<lparr>run = union_run ss, optin = list_ex optin ss\<rparr>"

text \<open>
  \<^verbatim>\<open>z.object(shape)\<close>. The input must be an object that is neither \<^verbatim>\<open>null\<close> nor an
  array. Every key of the shape is parsed from the input's property (\<^verbatim>\<open>undefined\<close>
  when the key is missing); an \<^verbatim>\<open>undefined\<close> result is written to the output only when
  the input has the key. Keys outside the shape are dropped, or refused by a strict
  object. One failing key fails the object.
\<close>

fun parse_shape :: "(string \<times> schema) list \<Rightarrow> (string \<times> jsval) list \<Rightarrow> exn + (string \<times> jsval) list" where
  "parse_shape [] kvs = Inr []"
| "parse_shape ((k, s) # sh) kvs =
     (case run s (get_prop (VObj kvs) k) of
        Inl e \<Rightarrow> Inl ZodError
      | Inr w \<Rightarrow>
          (case parse_shape sh kvs of
             Inl e \<Rightarrow> Inl e
           | Inr out \<Rightarrow> Inr ((if w \<noteq> VUndefined \<or> has_key kvs k then [(k, w)] else []) @ out)))"

datatype unknown_keys = Strip | Strict

definition z_object :: "unknown_keys \<Rightarrow> (string \<times> schema) list \<Rightarrow> schema" where
  "z_object uk shape =
     \<lparr>run = (\<lambda>v. case v of
                    VObj kvs \<Rightarrow>
                      if uk = Strict \<and> list_ex (\<lambda>k. k \<notin> set (map fst shape)) (map fst kvs)
                      then Inl ZodError
                      else (case parse_shape shape kvs of
                              Inl e \<Rightarrow> Inl e
                            | Inr out \<Rightarrow> Inr (VObj out))
                  | _ \<Rightarrow> Inl ZodError),
      optin = False\<rparr>"

text \<open>\<^verbatim>\<open>.partial()\<close> wraps every schema of the shape in an optional.\<close>

definition z_partial :: "zod_version \<Rightarrow> (string \<times> schema) list \<Rightarrow> (string \<times> schema) list" where
  "z_partial ver shape = map (\<lambda>(k, s). (k, z_optional ver s)) shape"

section \<open>The schemas of the processing route\<close>

text \<open>\<^verbatim>\<open>SourceTypeInputSchema\<close> and \<^verbatim>\<open>BodySchema\<close>: the request of POST.\<close>

definition SourceTypeInputSchema :: schema where
  "SourceTypeInputSchema =
     z_transform (\<lambda>v. if v = VStr ''screenshot'' then VStr ''screenshot'' else VStr ''receipt'')
       (z_enum [''receipt'', ''screenshot'', ''camera'', ''upload''])"

definition BodySchema :: schema where
  "BodySchema = z_object Strip
     [(''imagePath'', z_min_length 1 z_string),
      (''sourceType'', SourceTypeInputSchema)]"

text \<open>The preprocessing functions of \<^verbatim>\<open>ReceiptSchema\<close>, in the order of the source.\<close>

definition txn_date_pre :: "jsval \<Rightarrow> jsval" where
  "txn_date_pre v = (case v of
       VStr s \<Rightarrow>
         (let trimmed = trim s in
          if trimmed = [] \<or> trimmed = ''//'' then VNull
          else if strip_quotes trimmed = [] then VNull
          else if iso_date_regex trimmed then VStr trimmed else VNull)
     | _ \<Rightarrow> VNull)"

definition total_cents_pre :: "jsval \<Rightarrow> jsval" where
  "total_cents_pre v = (case v of
       VNum n \<Rightarrow> VNum n
     | VStr s \<Rightarrow> (let n = Number_of_string s in if isFinite n then VNum n else VNull)
     | _ \<Rightarrow> VNull)"

definition currency_pre :: "jsval \<Rightarrow> jsval" where
  "currency_pre v = (case v of
       VStr s \<Rightarrow>
         (let trimmed = trim s in
          if trimmed \<noteq> [] then VStr (toUpperCase trimmed) else VStr ''CAD'')
     | _ \<Rightarrow> VStr ''CAD'')"

definition confidence_pre :: "jsval \<Rightarrow> jsval" where
  "confidence_pre v = (case v of
       VNum n \<Rightarrow> VNum n
     | VStr s \<Rightarrow> (let n = Number_of_string s in if isFinite n then VNum n else VNull)
     | _ \<Rightarrow> VNull)"

text \<open>The seven field schemas of \<^verbatim>\<open>ReceiptSchema\<close>, as written before \<^verbatim>\<open>.partial()\<close>.\<close>

definition merchant_schema :: "zod_version \<Rightarrow> schema" where
  "merchant_schema ver = z_default ver VNull (z_optional ver (z_nullable z_string))"

definition txn_date_schema :: "zod_version \<Rightarrow> schema" where
  "txn_date_schema ver =
     z_default ver VNull (z_optional ver (z_preprocess txn_date_pre (z_nullable z_string)))"

definition total_cents_schema :: "zod_version \<Rightarrow> schema" where
  "total_cents_schema ver =
     z_default ver VNull (z_optional ver
       (z_preprocess total_cents_pre (z_nullable (z_gte (Fin 0) (z_int ver (z_number ver))))))"

definition currency_schema :: "zod_version \<Rightarrow> schema" where
  "currency_schema ver =
     z_default ver (VStr ''CAD'') (z_optional ver (z_preprocess currency_pre z_string))"

definition category_schema :: "zod_version \<Rightarrow> schema" where
  "category_schema ver = z_default ver VNull (z_optional ver (z_nullable z_string))"

definition confidence_schema :: "zod_version \<Rightarrow> schema" where
  "confidence_schema ver =
     z_default ver VNull (z_optional ver
       (z_preprocess confidence_pre (z_nullable (z_lte (Fin 1) (z_gte (Fin 0) (z_number ver))))))"

definition notes_schema :: "zod_version \<Rightarrow> schema" where
  "notes_schema ver = z_default ver VNull (z_optional ver (z_nullable z_string))"

definition receipt_shape :: "zod_version \<Rightarrow> (string \<times> schema) list" where
  "receipt_shape ver =
     [(''merchant'', merchant_schema ver),
      (''txn_date'', txn_date_schema ver),
      (''total_cents'', total_cents_schema ver),
      (''currency'', currency_schema ver),
      (''category'', category_schema ver),
      (''confidence'', confidence_schema ver),
      (''notes'', notes_schema ver)]"

definition ReceiptSchema :: "zod_version \<Rightarrow> schema" where
  "ReceiptSchema ver = z_object Strip (z_partial ver (receipt_shape ver))"

section \<open>Collaborators and stored state\<close>

text \<open>
  The handlers talk to four collaborators that are not part of the repository: the
  authentication service, the object storage, the database, and the vision model. What a
  collaborator answers is an input of the model (the environment); what the handlers
  store is the state they pass on. A transaction row has the twelve columns the handlers
  name; a data column holds a JSON value, \<^verbatim>\<open>null\<close> for SQL NULL.
\<close>

record txn =
  txn_id :: string
  user_id :: string
  created_at :: nat
  txn_date :: jsval
  merchant :: jsval
  total_cents :: jsval
  currency :: jsval
  category :: jsval
  source_type :: jsval
  image_path :: jsval
  ai_json :: jsval
  confidence :: jsval

text \<open>A write request sent to the database or to the storage, whether or not it
  succeeded.\<close>

datatype db_write = Write_insert | Write_update | Write_delete | Write_remove string

text \<open>The database and storage requests a handler makes; each can fail with a message.\<close>

datatype db_call = Call_select | Call_insert | Call_update | Call_delete | Call_remove

record world =
  rows :: "txn list"
  objects :: "string list"
  writes :: "db_write list"

text \<open>\<^verbatim>\<open>createSignedUrl\<close> answers \<^verbatim>\<open>{ data, error }\<close>.\<close>

record sign_result =
  sign_error :: "string option"
  signed_url :: "string option"

text \<open>
  The request to the vision model. The service answers with a response or the request
  fails in the network; either happens some milliseconds after the request was sent, or
  never. The handler arms a timer of 60000 milliseconds that aborts the request, and
  clears it once \<^verbatim>\<open>fetch\<close> has settled: what \<^verbatim>\<open>fetch\<close> gives the handler is the
  service's answer when that comes before the timer fires, and a rejection by the abort
  otherwise. The body of a response is read as text when the status is not a success and
  as JSON otherwise; either read can fail.
\<close>

record fetch_response =
  res_ok :: bool
  res_status :: nat
  res_text :: "string option"
  res_json :: "jsval option"

datatype fetch_outcome = Rejected string | Resolved fetch_response

record model_answer =
  settles_after :: "nat option"
  outcome :: fetch_outcome

datatype fetch_result = Fetch_aborted | Fetch_rejected string | Fetch_resolved fetch_response

definition abort_after_ms :: nat where
  "abort_after_ms = 60000"

definition fetch_with_abort :: "nat \<Rightarrow> model_answer \<Rightarrow> fetch_result" where
  "fetch_with_abort ms a =
     (case settles_after a of
        None \<Rightarrow> Fetch_aborted
      | Some t \<Rightarrow>
          if t < ms then (case outcome a of Rejected m \<Rightarrow> Fetch_rejected m | Resolved r \<Rightarrow> Fetch_resolved r)
          else Fetch_aborted)"

record env =
  zod :: zod_version
  get_user :: "string \<Rightarrow> string option"
  bucket_var :: "string option"
  openai_api_key :: "string option"
  openai_model :: "string option"
  sign_url :: "string \<Rightarrow> string \<Rightarrow> nat \<Rightarrow> sign_result"
  openai_service :: "string \<Rightarrow> string \<Rightarrow> string \<Rightarrow> string \<Rightarrow> model_answer"
  JSON_parse :: "string \<Rightarrow> jsval option"
  JSON_stringify :: "jsval \<Rightarrow> string"
  fault :: "db_call \<Rightarrow> string option"
  new_id :: string
  now :: nat

text \<open>A request: its \<^verbatim>\<open>authorization\<close> header, the \<^verbatim>\<open>id\<close> parameter of its URL, and
  its body as \<^verbatim>\<open>req.json()\<close> reads it (nothing when that throws).\<close>

record request =
  authorization :: "string option"
  query_id :: "string option"
  json_body :: "jsval option"

text \<open>\<^verbatim>\<open>NextResponse.json(body, { status })\<close>. An error body carries a literal message
  or the message of the exception that was caught.\<close>

datatype resp_body =
    Err string
  | Err_caught exn
  | Transactions "txn list"
  | Transaction txn
  | Ok_true
  | Signed_url string

datatype response = Json resp_body nat

section \<open>Authentication\<close>

text \<open>\<^verbatim>\<open>getUserFromRequest\<close>: the error message, or the id of the user. POST repeats
  the same steps inline.\<close>

definition bearer_token :: "request \<Rightarrow> string option" where
  "bearer_token req =
     (let authHeader = (case authorization req of Some h \<Rightarrow> h | None \<Rightarrow> [])
      in if take 7 authHeader = ''Bearer '' then Some (drop 7 authHeader) else None)"

definition getUserFromRequest :: "env \<Rightarrow> request \<Rightarrow> string + string" where
  "getUserFromRequest e req =
     (case bearer_token req of
        None \<Rightarrow> Inl ''Missing Authorization bearer token.''
      | Some token \<Rightarrow>
          if token = [] then Inl ''Missing Authorization bearer token.''
          else (case get_user e token of
                  None \<Rightarrow> Inl ''Unauthorized.''
                | Some u \<Rightarrow> Inr u))"

section \<open>The vision model call\<close>

text \<open>Decimal digits of a number, for the status in an error message.\<close>

fun show_nat :: "nat \<Rightarrow> string" where
  "show_nat n = (if n < 10 then [char_of (48 + n)]
                 else show_nat (n div 10) @ [char_of (48 + n mod 10)])"

text \<open>\<^verbatim>\<open>typeof v === "string"\<close>, and the string then.\<close>

fun is_str :: "jsval \<Rightarrow> bool" where
  "is_str (VStr s) = True"
| "is_str v = False"

fun str_of :: "jsval \<Rightarrow> string" where
  "str_of (VStr s) = s"
| "str_of v = []"

text \<open>The three tests the inner loop of \<^verbatim>\<open>callOpenAiVision\<close> makes on a content part,
  in order, and the loops over the parts of an item and over the items.\<close>

fun scan_parts :: "(jsval \<Rightarrow> string) \<Rightarrow> jsval list \<Rightarrow> string option" where
  "scan_parts stringify [] = None"
| "scan_parts stringify (part # rest) =
     (if get_prop part ''type'' = VStr ''output_text'' \<and> is_str (get_prop part ''text'')
      then Some (str_of (get_prop part ''text''))
      else if get_prop part ''type'' = VStr ''output_json'' \<and> get_prop part ''json'' \<noteq> VNull
              \<and> get_prop part ''json'' \<noteq> VUndefined
      then Some (stringify (get_prop part ''json''))
      else if is_str (get_prop part ''text'') \<and> trim (str_of (get_prop part ''text'')) \<noteq> []
      then Some (str_of (get_prop part ''text''))
      else scan_parts stringify rest)"

definition array_or_empty :: "jsval \<Rightarrow> jsval list" where
  "array_or_empty v = (case v of VArr xs \<Rightarrow> xs | _ \<Rightarrow> [])"

fun scan_items :: "(jsval \<Rightarrow> string) \<Rightarrow> jsval list \<Rightarrow> string option" where
  "scan_items stringify [] = None"
| "scan_items stringify (item # rest) =
     (case scan_parts stringify (array_or_empty (get_prop item ''content'')) of
        Some t \<Rightarrow> Some t
      | None \<Rightarrow> scan_items stringify rest)"

text \<open>The text of a response envelope: lines 471 to 494.\<close>

definition response_text :: "(jsval \<Rightarrow> string) \<Rightarrow> jsval \<Rightarrow> exn + string" where
  "response_text stringify payload =
     (let directText = get_prop payload ''output_text'' in
      if is_str directText \<and> trim (str_of directText) \<noteq> [] then Inr (str_of directText)
      else (case scan_items stringify (array_or_empty (get_prop payload ''output'')) of
              Some t \<Rightarrow> Inr t
            | None \<Rightarrow> Inl (JsError ''OpenAI response missing output text/json.'')))"

definition callOpenAiVision :: "env \<Rightarrow> string \<Rightarrow> string \<Rightarrow> exn + string" where
  "callOpenAiVision e signedUrl sourceType =
     (case openai_api_key e of
        None \<Rightarrow> Inl (JsError ''Missing OPENAI_API_KEY.'')
      | Some apiKey \<Rightarrow>
          if apiKey = [] then Inl (JsError ''Missing OPENAI_API_KEY.'')
          else
            (let model = (case openai_model e of Some m \<Rightarrow> m | None \<Rightarrow> ''gpt-4o-mini'')
             in case fetch_with_abort abort_after_ms (openai_service e apiKey model signedUrl sourceType) of
                  Fetch_aborted \<Rightarrow> Inl AbortError
                | Fetch_rejected m \<Rightarrow> Inl (NetworkError m)
                | Fetch_resolved res \<Rightarrow>
                    if \<not> res_ok res then
                      (let t = (case res_text res of Some t \<Rightarrow> t | None \<Rightarrow> [])
                       in Inl (JsError (if t \<noteq> [] then t
                            else ''OpenAI request failed ('' @ show_nat (res_status res) @ '').'')))
                    else (case res_json res of
                            None \<Rightarrow> Inl SyntaxError
                          | Some payload \<Rightarrow> response_text (JSON_stringify e) payload)))"

section \<open>POST: the extraction pipeline\<close>

text \<open>\<^verbatim>\<open>a ?? b\<close>.\<close>

definition nullish :: "jsval \<Rightarrow> jsval \<Rightarrow> jsval" where
  "nullish a b = (if a = VNull \<or> a = VUndefined then b else a)"

text \<open>A property that is \<^verbatim>\<open>undefined\<close> is left out of the JSON the database client
  sends; the column then takes its default, which is taken to be NULL.\<close>

definition column :: "jsval \<Rightarrow> jsval" where
  "column v = (if v = VUndefined then VNull else v)"

definition bucket :: "env \<Rightarrow> string" where
  "bucket e = (case bucket_var e of Some b \<Rightarrow> b | None \<Rightarrow> ''receipts'')"

text \<open>The row of lines 546 to 557; the id and the creation time come from the
  database.\<close>

definition insert_row :: "env \<Rightarrow> string \<Rightarrow> jsval \<Rightarrow> jsval \<Rightarrow> txn" where
  "insert_row e uid body parsed =
     \<lparr>txn_id = new_id e,
      user_id = uid,
      created_at = now e,
      txn_date = column (get_prop parsed ''txn_date''),
      merchant = column (get_prop parsed ''merchant''),
      total_cents = column (get_prop parsed ''total_cents''),
      currency = column (nullish (get_prop parsed ''currency'') (VStr ''CAD'')),
      category = column (get_prop parsed ''category''),
      source_type = column (get_prop body ''sourceType''),
      image_path = column (get_prop body ''imagePath''),
      ai_json = parsed,
      confidence = column (get_prop parsed ''confidence'')\<rparr>"

text \<open>\<^verbatim>\<open>signedErr || !signed?.signedUrl\<close> decides whether signing failed.\<close>

definition usable_url :: "sign_result \<Rightarrow> string option" where
  "usable_url r = (case sign_error r of
       Some m \<Rightarrow> None
     | None \<Rightarrow> (case signed_url r of None \<Rightarrow> None | Some u \<Rightarrow> if u = [] then None else Some u))"

definition POST :: "env \<Rightarrow> request \<Rightarrow> world \<Rightarrow> response \<times> world" where
  "POST e req w =
     (case getUserFromRequest e req of
        Inl msg \<Rightarrow> (Json (Err msg) 401, w)
      | Inr uid \<Rightarrow>
          (case json_body req of
             None \<Rightarrow> (Json (Err_caught SyntaxError) 400, w)
           | Some j \<Rightarrow>
               (case run BodySchema j of
                  Inl x \<Rightarrow> (Json (Err_caught x) 400, w)
                | Inr body \<Rightarrow>
                    (let signed = sign_url e (bucket e) (str_of (get_prop body ''imagePath'')) (60 * 10)
                     in case usable_url signed of
                          None \<Rightarrow>
                            (Json (Err (case sign_error signed of Some m \<Rightarrow> m | None \<Rightarrow> ''No signed URL'')) 500, w)
                        | Some url \<Rightarrow>
                            (case callOpenAiVision e url (str_of (get_prop body ''sourceType'')) of
                               Inl x \<Rightarrow> (Json (Err_caught x) 400, w)
                             | Inr rawText \<Rightarrow>
                                 (case JSON_parse e rawText of
                                    None \<Rightarrow> (Json (Err_caught SyntaxError) 400, w)
                                  | Some raw \<Rightarrow>
                                      (case run (ReceiptSchema (zod e)) raw of
                                         Inl x \<Rightarrow> (Json (Err_caught x) 400, w)
                                       | Inr parsed \<Rightarrow>
                                           (case fault e Call_insert of
                                              Some m \<Rightarrow>
                                                (Json (Err m) 500, w\<lparr>writes := writes w @ [Write_insert]\<rparr>)
                                            | None \<Rightarrow>
                                                (Json (Transaction (insert_row e uid body parsed)) 200,
                                                 w\<lparr>rows := rows w @ [insert_row e uid body parsed],
                                                   writes := writes w @ [Write_insert]\<rparr>)))))))))"

section \<open>The transaction routes: GET, DELETE, PATCH\<close>

text \<open>
  A query \<^verbatim>\<open>.eq("id", id).eq("user_id", user.id)\<close> selects the rows that pass both
  tests. \<^verbatim>\<open>.maybeSingle()\<close> gives no row, the one row, or an error when several rows
  match. A request that fails, the database's own failure (\<^verbatim>\<open>fault\<close>) included, changes
  nothing.
\<close>

definition maybeSingle :: "'a list \<Rightarrow> string + 'a option" where
  "maybeSingle xs = (case xs of
       [] \<Rightarrow> Inr None
     | [x] \<Rightarrow> Inr (Some x)
     | _ \<Rightarrow> Inl ''JSON object requested, multiple (or no) rows returned'')"

definition owned :: "string \<Rightarrow> string \<Rightarrow> txn \<Rightarrow> bool" where
  "owned i uid t = (txn_id t = i \<and> user_id t = uid)"

text \<open>The truth value of a JavaScript value.\<close>

fun truthy :: "jsval \<Rightarrow> bool" where
  "truthy VUndefined = False"
| "truthy VNull = False"
| "truthy (VBool b) = b"
| "truthy (VNum n) = (n \<noteq> Fin 0 \<and> n \<noteq> NaN)"
| "truthy (VStr s) = (s \<noteq> [])"
| "truthy v = True"

definition GET :: "env \<Rightarrow> request \<Rightarrow> world \<Rightarrow> response \<times> world" where
  "GET e req w =
     (case getUserFromRequest e req of
        Inl authError \<Rightarrow> (Json (Err authError) 401, w)
      | Inr uid \<Rightarrow>
          (case fault e Call_select of
             Some m \<Rightarrow> (Json (Err m) 500, w)
           | None \<Rightarrow>
               (Json (Transactions
                  (rev (sort_key created_at (filter (\<lambda>t. user_id t = uid) (rows w))))) 200, w)))"

text \<open>\<^verbatim>\<open>/not\s*found/i.test(s)\<close>.\<close>

definition lower_char :: "char \<Rightarrow> char" where
  "lower_char c = (let n = of_char c :: nat in if 65 \<le> n \<and> n \<le> 90 then char_of (n + 32) else c)"

definition starts_with_ci :: "string \<Rightarrow> string \<Rightarrow> bool" where
  "starts_with_ci p s = (map lower_char (take (length p) s) = p)"

fun not_found_regex :: "string \<Rightarrow> bool" where
  "not_found_regex [] = False"
| "not_found_regex (c # cs) =
     ((starts_with_ci ''not'' (c # cs) \<and> starts_with_ci ''found'' (dropWhile is_ws (drop 3 (c # cs))))
      \<or> not_found_regex cs)"

text \<open>DELETE, in the three steps of the source. The row is looked up for the caller
  (lines 73 to 86). Its image, if it has one, is removed from the storage; an error
  stops the handler unless its message says that the file was not found (lines 88 to
  102). Then the row is deleted (lines 104 to 120).\<close>

definition remove_image :: "env \<Rightarrow> txn \<Rightarrow> world \<Rightarrow> string option \<times> world" where
  "remove_image e t w =
     (if \<not> truthy (image_path t) then (None, w)
      else
        (case fault e Call_remove of
           Some m \<Rightarrow>
             (if \<not> not_found_regex m then Some m else None,
              w\<lparr>writes := writes w @ [Write_remove (str_of (image_path t))]\<rparr>)
         | None \<Rightarrow>
             (None,
              w\<lparr>objects := filter (\<lambda>p. p \<noteq> str_of (image_path t)) (objects w),
                writes := writes w @ [Write_remove (str_of (image_path t))]\<rparr>)))"

definition delete_row :: "env \<Rightarrow> string \<Rightarrow> string \<Rightarrow> world \<Rightarrow> response \<times> world" where
  "delete_row e i uid w =
     (case fault e Call_delete of
        Some m \<Rightarrow> (Json (Err m) 500, w\<lparr>writes := writes w @ [Write_delete]\<rparr>)
      | None \<Rightarrow>
          (case maybeSingle (filter (owned i uid) (rows w)) of
             Inl m \<Rightarrow> (Json (Err m) 500, w\<lparr>writes := writes w @ [Write_delete]\<rparr>)
           | Inr None \<Rightarrow> (Json (Err ''Not found.'') 404, w\<lparr>writes := writes w @ [Write_delete]\<rparr>)
           | Inr (Some d) \<Rightarrow>
               (Json Ok_true 200,
                w\<lparr>rows := filter (\<lambda>t. \<not> owned i uid t) (rows w),
                  writes := writes w @ [Write_delete]\<rparr>)))"

definition DELETE :: "env \<Rightarrow> request \<Rightarrow> world \<Rightarrow> response \<times> world" where
  "DELETE e req w =
     (case getUserFromRequest e req of
        Inl authError \<Rightarrow> (Json (Err authError) 401, w)
      | Inr uid \<Rightarrow>
          (let body = (case json_body req of Some j \<Rightarrow> j | None \<Rightarrow> VNull);
               i = (if is_str (get_prop body ''id'') then str_of (get_prop body ''id'') else [])
           in if i = [] then (Json (Err ''Missing transaction id.'') 400, w)
              else
                (case fault e Call_select of
                   Some m \<Rightarrow> (Json (Err m) 500, w)
                 | None \<Rightarrow>
                     (case maybeSingle (filter (owned i uid) (rows w)) of
                        Inl m \<Rightarrow> (Json (Err m) 500, w)
                      | Inr None \<Rightarrow> (Json (Err ''Not found.'') 404, w)
                      | Inr (Some t) \<Rightarrow>
                          (case remove_image e t w of
                             (Some m, w1) \<Rightarrow> (Json (Err m) 500, w1)
                           | (None, w1) \<Rightarrow> delete_row e i uid w1)))))"

text \<open>\<^verbatim>\<open>Math.round\<close>: the nearest integer, a tie going up.\<close>

fun Math_round :: "jsnum \<Rightarrow> jsnum" where
  "Math_round (Fin q) = Fin (of_int \<lfloor>q + 1 / 2\<rfloor>)"
| "Math_round n = n"

text \<open>The transforms of \<^verbatim>\<open>PatchBodySchema\<close>. Each sees \<^verbatim>\<open>undefined\<close>, \<^verbatim>\<open>null\<close> or a
  value its union accepted; the last case of each is never reached.\<close>

definition patch_merchant :: "jsval \<Rightarrow> jsval" where
  "patch_merchant v = (case v of
       VUndefined \<Rightarrow> VUndefined
     | VNull \<Rightarrow> VNull
     | VStr s \<Rightarrow> (let trimmed = trim s in if trimmed \<noteq> [] then VStr trimmed else VNull)
     | _ \<Rightarrow> VNull)"

definition patch_txn_date :: "jsval \<Rightarrow> jsval" where
  "patch_txn_date v = (case v of
       VUndefined \<Rightarrow> VUndefined
     | VNull \<Rightarrow> VNull
     | VStr s \<Rightarrow>
         (let trimmed = trim s in
          if trimmed = [] then VNull
          else if iso_date_regex trimmed then VStr trimmed else VNull)
     | _ \<Rightarrow> VNull)"

definition patch_total_cents :: "jsval \<Rightarrow> jsval" where
  "patch_total_cents v = (case v of
       VUndefined \<Rightarrow> VUndefined
     | VNull \<Rightarrow> VNull
     | _ \<Rightarrow>
         (let n = (case v of VNum x \<Rightarrow> x | _ \<Rightarrow> Number_of_string (str_of v)) in
          if \<not> isFinite n then VNull
          else (let asInt = Math_round n in
                if num_lt asInt (Fin 0) then VNull else VNum asInt)))"

definition patch_currency :: "jsval \<Rightarrow> jsval" where
  "patch_currency v = (case v of
       VUndefined \<Rightarrow> VUndefined
     | VNull \<Rightarrow> VNull
     | VStr s \<Rightarrow> (let trimmed = trim s in if trimmed = [] then VNull else VStr (toUpperCase trimmed))
     | _ \<Rightarrow> VNull)"

definition patch_category :: "jsval \<Rightarrow> jsval" where
  "patch_category v = (case v of
       VUndefined \<Rightarrow> VUndefined
     | VNull \<Rightarrow> VNull
     | VStr s \<Rightarrow> (let trimmed = trim s in if trimmed \<noteq> [] then VStr trimmed else VNull)
     | _ \<Rightarrow> VNull)"

definition PatchBodySchema :: "zod_version \<Rightarrow> schema" where
  "PatchBodySchema ver = z_object Strict
     [(''id'', z_min_length 1 z_string),
      (''merchant'', z_transform patch_merchant (z_optional ver (z_union [z_string, z_null]))),
      (''txn_date'', z_transform patch_txn_date (z_optional ver (z_union [z_string, z_null]))),
      (''total_cents'',
         z_transform patch_total_cents (z_optional ver (z_union [z_number ver, z_string, z_null]))),
      (''currency'', z_transform patch_currency (z_optional ver (z_union [z_string, z_null]))),
      (''category'', z_transform patch_category (z_optional ver (z_union [z_string, z_null])))]"

text \<open>The update object of PATCH: the fields of the parsed body that are not
  \<^verbatim>\<open>undefined\<close>; and what the update does to a row.\<close>

definition patch_update :: "jsval \<Rightarrow> (string \<times> jsval) list" where
  "patch_update parsed =
     filter (\<lambda>(k, v). v \<noteq> VUndefined)
       (map (\<lambda>k. (k, get_prop parsed k))
          [''merchant'', ''txn_date'', ''total_cents'', ''currency'', ''category''])"

definition set_column :: "string \<times> jsval \<Rightarrow> txn \<Rightarrow> txn" where
  "set_column kv t =
     (if fst kv = ''merchant'' then t\<lparr>merchant := snd kv\<rparr>
      else if fst kv = ''txn_date'' then t\<lparr>txn_date := snd kv\<rparr>
      else if fst kv = ''total_cents'' then t\<lparr>total_cents := snd kv\<rparr>
      else if fst kv = ''currency'' then t\<lparr>currency := snd kv\<rparr>
      else if fst kv = ''category'' then t\<lparr>category := snd kv\<rparr>
      else t)"

definition apply_update :: "(string \<times> jsval) list \<Rightarrow> txn \<Rightarrow> txn" where
  "apply_update upd t = foldr set_column upd t"

definition PATCH :: "env \<Rightarrow> request \<Rightarrow> world \<Rightarrow> response \<times> world" where
  "PATCH e req w =
     (case getUserFromRequest e req of
        Inl authError \<Rightarrow> (Json (Err authError) 401, w)
      | Inr uid \<Rightarrow>
          (let body = (case json_body req of Some j \<Rightarrow> j | None \<Rightarrow> VNull)
           in case run (PatchBodySchema (zod e)) body of
                Inl x \<Rightarrow> (Json (Err_caught x) 400, w)
              | Inr parsed \<Rightarrow>
                  (let update = patch_update parsed; i = str_of (get_prop parsed ''id'')
                   in if update = [] then (Json (Err ''No fields to update.'') 400, w)
                      else
                        (let w1 = w\<lparr>writes := writes w @ [Write_update]\<rparr>
                         in case fault e Call_update of
                              Some m \<Rightarrow> (Json (Err m) 500, w1)
                            | None \<Rightarrow>
                                (case maybeSingle (filter (owned i uid) (rows w)) of
                                   Inl m \<Rightarrow> (Json (Err m) 500, w1)
                                 | Inr None \<Rightarrow> (Json (Err ''Not found.'') 404, w1)
                                 | Inr (Some t) \<Rightarrow>
                                     (Json (Transaction (apply_update update t)) 200,
                                      w1\<lparr>rows := map (\<lambda>t. if owned i uid t then apply_update update t else t)
                                                    (rows w)\<rparr>))))))"

section \<open>The image route: GET\<close>

definition GET_image :: "env \<Rightarrow> request \<Rightarrow> world \<Rightarrow> response \<times> world" where
  "GET_image e req w =
     (case getUserFromRequest e req of
        Inl authError \<Rightarrow> (Json (Err authError) 401, w)
      | Inr uid \<Rightarrow>
          (let i = (case query_id req of Some q \<Rightarrow> q | None \<Rightarrow> [])
           in if i = [] then (Json (Err ''Missing id.'') 400, w)
              else
                (case fault e Call_select of
                   Some m \<Rightarrow> (Json (Err m) 500, w)
                 | None \<Rightarrow>
                     (case maybeSingle (filter (owned i uid) (rows w)) of
                        Inl m \<Rightarrow> (Json (Err m) 500, w)
                      | Inr None \<Rightarrow> (Json (Err ''Not found.'') 404, w)
                      | Inr (Some t) \<Rightarrow>
                          if \<not> truthy (image_path t) then (Json (Err ''No image available.'') 404, w)
                          else
                            (let signed = sign_url e (bucket e) (str_of (image_path t)) (60 * 10)
                             in case usable_url signed of
                                  None \<Rightarrow>
                                    (Json (Err (case sign_error signed of
                                                  Some m \<Rightarrow> m
                                                | None \<Rightarrow> ''Failed to create signed URL.'')) 500, w)
                                | Some url \<Rightarrow> (Json (Signed_url url) 200, w))))))"

section \<open>An environment for examples\<close>

text \<open>A deployment in which the token \<^verbatim>\<open>tok-ann\<close> belongs to the user \<^verbatim>\<open>ann\<close> and
  \<^verbatim>\<open>tok-bob\<close> to \<^verbatim>\<open>bob\<close>, every object can be signed, no database request fails, and the
  model answers every image with the same envelope. The two JSON functions of the
  runtime are given on the texts these examples meet.\<close>

definition costco_json :: jsval where
  "costco_json = VObj
     [(''merchant'', VStr ''Costco''), (''txn_date'', VStr ''2024-03-01''),
      (''total_cents'', VNum (Fin 4599)), (''currency'', VStr ''cad''),
      (''category'', VStr ''Groceries''), (''confidence'', VNum (Fin (8286623314361713 / 9007199254740992))),
      (''notes'', VNull)]"

definition costco_text :: string where
  \<open>costco_text = ''{"merchant":"Costco","txn_date":"2024-03-01","total_cents":4599,"currency":"cad","category":"Groceries","confidence":0.92,"notes":null}''\<close>

definition fallback_envelope :: jsval where
  "fallback_envelope = VObj
     [(''output_text'', VStr []),
      (''output'', VArr [VObj [(''content'',
         VArr [VObj [(''type'', VStr ''output_json''), (''json'', costco_json)]])]])]"

definition users_of_example :: "string \<Rightarrow> string option" where
  "users_of_example token =
     (if token = ''tok-ann'' then Some ''ann'' else if token = ''tok-bob'' then Some ''bob'' else None)"

definition sign_of_example :: "string \<Rightarrow> string \<Rightarrow> nat \<Rightarrow> sign_result" where
  "sign_of_example b path ttl = \<lparr>sign_error = None, signed_url = Some (''https://storage/'' @ path)\<rparr>"

definition service_of_example :: "string \<Rightarrow> string \<Rightarrow> string \<Rightarrow> string \<Rightarrow> model_answer" where
  "service_of_example key model url sourceType =
     \<lparr>settles_after = Some 2500,
      outcome = Resolved \<lparr>res_ok = True, res_status = 200, res_text = None,
                          res_json = Some fallback_envelope\<rparr>\<rparr>"

definition parse_of_example :: "string \<Rightarrow> jsval option" where
  "parse_of_example s = (if s = costco_text then Some costco_json else None)"

definition stringify_of_example :: "jsval \<Rightarrow> string" where
  "stringify_of_example v = (if v = costco_json then costco_text else [])"

definition no_fault :: "db_call \<Rightarrow> string option" where
  "no_fault c = None"

definition example_env :: env where
  "example_env =
     \<lparr>zod = Zod3, get_user = users_of_example, bucket_var = None,
      openai_api_key = Some ''sk-test'', openai_model = None,
      sign_url = sign_of_example, openai_service = service_of_example,
      JSON_parse = parse_of_example, JSON_stringify = stringify_of_example,
      fault = no_fault, new_id = ''t3'', now = 30\<rparr>"

text \<open>The same deployment with a model that takes 61 seconds for the same answer.\<close>

definition slow_service :: "string \<Rightarrow> string \<Rightarrow> string \<Rightarrow> string \<Rightarrow> model_answer" where
  "slow_service key model url sourceType =
     \<lparr>settles_after = Some 61000,
      outcome = Resolved \<lparr>res_ok = True, res_status = 200, res_text = None,
                          res_json = Some fallback_envelope\<rparr>\<rparr>"

definition slow_model_env :: env where
  "slow_model_env = example_env\<lparr>openai_service := slow_service\<rparr>"

definition example_row :: "string \<Rightarrow> string \<Rightarrow> nat \<Rightarrow> txn" where
  "example_row i uid stamp =
     \<lparr>txn_id = i, user_id = uid, created_at = stamp, txn_date = VNull, merchant = VStr ''Shop'',
      total_cents = VNum (Fin 100), currency = VStr ''CAD'', category = VNull,
      source_type = VStr ''receipt'', image_path = VStr (uid @ ''/'' @ i @ ''.png''),
      ai_json = VObj [], confidence = VNull\<rparr>"

definition example_world :: world where
  "example_world =
     \<lparr>rows = [example_row ''t1'' ''ann'' 10, example_row ''t2'' ''bob'' 20],
      objects = [''ann/t1.png'', ''bob/t2.png''],
      writes = []\<rparr>"

definition request_of :: "string \<Rightarrow> jsval \<Rightarrow> request" where
  "request_of token j =
     \<lparr>authorization = Some (''Bearer '' @ token), query_id = None, json_body = Some j\<rparr>"

section \<open>Predicates of the properties\<close>

text \<open>A field of a normalized record holds a value of its type or no value: \<^verbatim>\<open>null\<close>,
  or \<^verbatim>\<open>undefined\<close> when the key is left out of the record.\<close>

fun is_string_or_absent :: "jsval \<Rightarrow> bool" where
  "is_string_or_absent (VStr s) = True"
| "is_string_or_absent VNull = True"
| "is_string_or_absent VUndefined = True"
| "is_string_or_absent v = False"

fun is_cents_or_absent :: "jsval \<Rightarrow> bool" where
  "is_cents_or_absent (VNum (Fin q)) = (0 \<le> q \<and> of_int \<lfloor>q\<rfloor> = q)"
| "is_cents_or_absent VNull = True"
| "is_cents_or_absent VUndefined = True"
| "is_cents_or_absent v = False"

fun is_confidence_or_absent :: "jsval \<Rightarrow> bool" where
  "is_confidence_or_absent (VNum (Fin q)) = (0 \<le> q \<and> q \<le> 1)"
| "is_confidence_or_absent VNull = True"
| "is_confidence_or_absent VUndefined = True"
| "is_confidence_or_absent v = False"

text \<open>What a missing key becomes: zod 3 leaves it out of the record, zod 4 applies the
  default \<^verbatim>\<open>null\<close>.\<close>

definition absent_result :: "zod_version \<Rightarrow> jsval" where
  "absent_result ver = (if ver = Zod3 then VUndefined else VNull)"

definition receipt_keys :: "string list" where
  "receipt_keys = [''merchant'', ''txn_date'', ''total_cents'', ''currency'', ''category'', ''confidence'', ''notes'']"

definition typed_receipt :: "jsval \<Rightarrow> bool" where
  "typed_receipt r = (case r of
       VObj out \<Rightarrow>
         list_all (\<lambda>k. k \<in> set receipt_keys) (map fst out) \<and>
         is_string_or_absent (get_prop r ''merchant'') \<and>
         is_string_or_absent (get_prop r ''txn_date'') \<and>
         is_cents_or_absent (get_prop r ''total_cents'') \<and>
         is_string_or_absent (get_prop r ''currency'') \<and>
         is_string_or_absent (get_prop r ''category'') \<and>
         is_confidence_or_absent (get_prop r ''confidence'') \<and>
         is_string_or_absent (get_prop r ''notes'')
     | _ \<Rightarrow> False)"

text \<open>
  The values of the two numeric fields, after the preprocessing step of the source, that
  the number schemas take: \<^verbatim>\<open>null\<close>, which the step gives for everything that is not a
  number or a string that \<^verbatim>\<open>Number\<close> reads as a finite number; a non-negative integer
  (a safe one under zod 4) for total\_cents; a number from 0 to 1 for confidence.
\<close>

fun cents_in_range :: "zod_version \<Rightarrow> jsval \<Rightarrow> bool" where
  "cents_in_range ver VNull = True"
| "cents_in_range ver (VNum (Fin q)) =
     (0 \<le> q \<and> of_int \<lfloor>q\<rfloor> = q \<and> (ver = Zod3 \<or> q \<le> max_safe_integer))"
| "cents_in_range ver v = False"

fun confidence_in_range :: "jsval \<Rightarrow> bool" where
  "confidence_in_range VNull = True"
| "confidence_in_range (VNum (Fin q)) = (0 \<le> q \<and> q \<le> 1)"
| "confidence_in_range v = False"

text \<open>
  Objects that the normalizer is shown to accept. The three plain text fields are a
  string, \<^verbatim>\<open>null\<close> or missing; txn\_date and currency hold anything; total\_cents and
  confidence hold anything, except that a number, or a string read as a finite number,
  lies in the range of the field. Keys outside the seven fields play no part.
\<close>

definition accepted_input :: "zod_version \<Rightarrow> (string \<times> jsval) list \<Rightarrow> bool" where
  "accepted_input ver kvs =
     (is_string_or_absent (get_prop (VObj kvs) ''merchant'') \<and>
      cents_in_range ver (total_cents_pre (get_prop (VObj kvs) ''total_cents'')) \<and>
      is_string_or_absent (get_prop (VObj kvs) ''category'') \<and>
      confidence_in_range (confidence_pre (get_prop (VObj kvs) ''confidence'')) \<and>
      is_string_or_absent (get_prop (VObj kvs) ''notes''))"

text \<open>The currency the specification gives for a raw value: \<^verbatim>\<open>CAD\<close> when it is absent,
  not a string or empty after trimming, else the trimmed string in upper case.\<close>

definition spec_currency :: "jsval \<Rightarrow> string" where
  "spec_currency v = (case v of
       VStr s \<Rightarrow> if trim s = [] then ''CAD'' else toUpperCase (trim s)
     | _ \<Rightarrow> ''CAD'')"

text \<open>The date the normalizer gives for a raw value: the trimmed string when that has the
  form of a date, and no value otherwise.\<close>

definition normal_txn_date :: "zod_version \<Rightarrow> jsval \<Rightarrow> jsval" where
  "normal_txn_date ver v = (case v of
       VStr s \<Rightarrow> if iso_date_regex (trim s) then VStr (trim s) else VNull
     | VUndefined \<Rightarrow> absent_result ver
     | _ \<Rightarrow> VNull)"

text \<open>The merchant, category or notes the normalizer gives for a raw value that is a
  string, \<^verbatim>\<open>null\<close> or missing: the value itself.\<close>

definition normal_text :: "zod_version \<Rightarrow> jsval \<Rightarrow> jsval" where
  "normal_text ver v = (if v = VUndefined then absent_result ver else v)"

text \<open>An error response: an error body with a status of 400 or more.\<close>

fun is_error :: "response \<Rightarrow> bool" where
  "is_error (Json (Err m) s) = (400 \<le> s)"
| "is_error (Json (Err_caught x) s) = (400 \<le> s)"
| "is_error r = False"

text \<open>The transaction id \<open>i\<close> exists and every row that has it belongs to a user other
  than \<open>uid\<close>.\<close>

definition belongs_to_other :: "string \<Rightarrow> string \<Rightarrow> world \<Rightarrow> bool" where
  "belongs_to_other i uid w =
     (list_ex (\<lambda>t. txn_id t = i) (rows w) \<and>
      list_all (\<lambda>t. txn_id t = i \<longrightarrow> user_id t \<noteq> uid) (rows w))"

text \<open>The rows of the other users.\<close>

definition rows_of_others :: "string \<Rightarrow> world \<Rightarrow> txn list" where
  "rows_of_others uid w = filter (\<lambda>t. user_id t \<noteq> uid) (rows w)"

lemmas zdefs = z_optional_def z_default_def z_nullable_def z_string_def z_preprocess_def
  z_refine_def z_gte_def z_lte_def z_int_def z_number_def

lemma run_merchant_field:
  "run (z_optional ver (merchant_schema ver)) v =
     (case v of VUndefined \<Rightarrow> Inr (absent_result ver) | VNull \<Rightarrow> Inr VNull
      | VStr s \<Rightarrow> Inr (VStr s) | _ \<Rightarrow> Inl ZodError)"
  by (cases ver; cases v; simp add: merchant_schema_def zdefs absent_result_def)

lemma iso_date_not_glitch:
  assumes "iso_date_regex t"
  shows "t \<noteq> [] \<and> t \<noteq> ''//'' \<and> strip_quotes t \<noteq> []"
proof -
  from assms obtain c r where t: "t = c # r" and d: "is_digit c" and l: "length t = 10"
    by (rule iso_date_regex.elims(2)) auto
  from d have "c \<noteq> CHR 0x22"
    by (auto simp: is_digit_def)
  with t l show ?thesis
    by (auto simp: strip_quotes_def)
qed

lemma run_txn_date_field:
  "run (z_optional ver (txn_date_schema ver)) v =
     (case v of VUndefined \<Rightarrow> Inr (absent_result ver)
      | VStr s \<Rightarrow> Inr (if iso_date_regex (trim s) then VStr (trim s) else VNull)
      | _ \<Rightarrow> Inr VNull)"
  using iso_date_not_glitch [of "trim s" for s]
  by (cases ver; cases v) (auto simp: txn_date_schema_def zdefs absent_result_def txn_date_pre_def Let_def)

lemma run_currency_field:
  "run (z_optional ver (currency_schema ver)) v =
     (case v of VUndefined \<Rightarrow> (if ver = Zod3 then Inr VUndefined else Inr (VStr ''CAD''))
      | VStr s \<Rightarrow> Inr (VStr (if trim s = [] then ''CAD'' else toUpperCase (trim s)))
      | _ \<Rightarrow> Inr (VStr ''CAD''))"
  by (cases ver; cases v; simp add: currency_schema_def zdefs currency_pre_def Let_def)

lemma cents_field_typed:
  "run (z_optional ver (total_cents_schema ver)) v = Inr w \<Longrightarrow> is_cents_or_absent w"
  by (cases ver; cases v)
     (auto simp: total_cents_schema_def zdefs total_cents_pre_def Let_def int_check_def
           split: if_splits jsnum.splits sum.splits jsval.splits)

lemma confidence_field_typed:
  "run (z_optional ver (confidence_schema ver)) v = Inr w \<Longrightarrow> is_confidence_or_absent w"
  by (cases ver; cases v)
     (auto simp: confidence_schema_def zdefs confidence_pre_def Let_def
           split: if_splits jsnum.splits sum.splits jsval.splits)

lemma partial_receipt_shape:
  "z_partial ver (receipt_shape ver) =
     [(''merchant'', z_optional ver (merchant_schema ver)),
      (''txn_date'', z_optional ver (txn_date_schema ver)),
      (''total_cents'', z_optional ver (total_cents_schema ver)),
      (''currency'', z_optional ver (currency_schema ver)),
      (''category'', z_optional ver (category_schema ver)),
      (''confidence'', z_optional ver (confidence_schema ver)),
      (''notes'', z_optional ver (notes_schema ver))]"
  by (simp add: z_partial_def receipt_shape_def)

lemma partial_receipt_keys: "map fst (z_partial ver (receipt_shape ver)) = receipt_keys"
  by (simp add: partial_receipt_shape receipt_keys_def)

lemma parse_shape_keys:
  "parse_shape sh kvs = Inr out \<Longrightarrow> set (map fst out) \<subseteq> set (map fst sh)"
proof (induction sh arbitrary: out)
  case Nil
  then show ?case by simp
next
  case (Cons p sh)
  obtain k s where p: "p = (k, s)" by (cases p)
  from Cons.prems p obtain w out' where
    "parse_shape sh kvs = Inr out'"
    "out = (if w \<noteq> VUndefined \<or> has_key kvs k then [(k, w)] else []) @ out'"
    by (auto split: sum.splits)
  with Cons.IH [of out'] p show ?case
    by (auto split: if_splits)
qed

lemma parse_shape_get:
  "parse_shape sh kvs = Inr out \<Longrightarrow> distinct (map fst sh) \<Longrightarrow> (k, s) \<in> set sh \<Longrightarrow>
   run s (get_prop (VObj kvs) k) = Inr (get_prop (VObj out) k)"
proof (induction sh arbitrary: out)
  case Nil
  then show ?case by simp
next
  case (Cons p sh)
  obtain k' s' where p: "p = (k', s')" by (cases p)
  from Cons.prems(1) p obtain w out' where
    r: "run s' (get_prop (VObj kvs) k') = Inr w" and
    t: "parse_shape sh kvs = Inr out'" and
    o: "out = (if w \<noteq> VUndefined \<or> has_key kvs k' then [(k', w)] else []) @ out'"
    by (auto split: sum.splits)
  from Cons.prems(2) p have d: "k' \<notin> set (map fst sh)" "distinct (map fst sh)"
    by auto
  show ?case
  proof (cases "(k, s) = (k', s')")
    case True
    from parse_shape_keys [OF t] d have "map_of out' k' = None"
      by (auto simp: map_of_eq_None_iff)
    with True r o show ?thesis
      by (auto split: if_splits)
  next
    case False
    with Cons.prems(3) p have m: "(k, s) \<in> set sh" by auto
    with d have "k \<noteq> k'" by force
    with o have "get_prop (VObj out) k = get_prop (VObj out') k"
      by (auto split: if_splits)
    with Cons.IH [OF t d(2) m] show ?thesis by simp
  qed
qed

lemma parse_shape_cong:
  "(\<And>k. k \<in> set (map fst sh) \<Longrightarrow> map_of kvs k = map_of kvs' k) \<Longrightarrow>
   parse_shape sh kvs = parse_shape sh kvs'"
proof (induction sh)
  case Nil
  then show ?case by simp
next
  case (Cons p sh)
  obtain k s where p: "p = (k, s)" by (cases p)
  from Cons.prems p have m: "map_of kvs k = map_of kvs' k" by simp
  then have a: "get_prop (VObj kvs) k = get_prop (VObj kvs') k" by simp
  from m have b: "has_key kvs k = has_key kvs' k" by (simp add: has_key_def)
  from Cons have c: "parse_shape sh kvs = parse_shape sh kvs'" by simp
  show ?case
    by (simp only: p parse_shape.simps a b c)
qed

lemma parse_shape_accepts:
  "(\<And>k s. (k, s) \<in> set sh \<Longrightarrow> \<exists>w. run s (get_prop (VObj kvs) k) = Inr w) \<Longrightarrow>
   \<exists>out. parse_shape sh kvs = Inr out"
proof (induction sh)
  case Nil
  then show ?case by simp
next
  case (Cons p sh)
  obtain k s where p: "p = (k, s)" by (cases p)
  from Cons.prems p obtain w where "run s (get_prop (VObj kvs) k) = Inr w" by auto
  moreover from Cons obtain out where "parse_shape sh kvs = Inr out" by auto
  ultimately show ?case using p by simp
qed

lemma map_of_filter_keys:
  "k \<in> K \<Longrightarrow> map_of (filter (\<lambda>(k, w). k \<in> K) kvs) k = map_of kvs k"
  by (induction kvs) auto

lemma ReceiptSchema_VObj:
  "run (ReceiptSchema ver) (VObj kvs) =
     (case parse_shape (z_partial ver (receipt_shape ver)) kvs of
        Inl e \<Rightarrow> Inl e | Inr out \<Rightarrow> Inr (VObj out))"
  by (simp add: ReceiptSchema_def z_object_def)

lemma ReceiptSchema_not_object:
  "(\<forall>kvs. v \<noteq> VObj kvs) \<Longrightarrow> run (ReceiptSchema ver) v = Inl ZodError"
  by (cases v) (simp_all add: ReceiptSchema_def z_object_def)

lemma ReceiptSchema_field:
  assumes "run (ReceiptSchema ver) (VObj kvs) = Inr r"
    and "(k, s) \<in> set (z_partial ver (receipt_shape ver))"
  shows "run s (get_prop (VObj kvs) k) = Inr (get_prop r k)"
proof -
  from assms(1) obtain out where r: "r = VObj out"
    and p: "parse_shape (z_partial ver (receipt_shape ver)) kvs = Inr out"
    by (auto simp: ReceiptSchema_VObj split: sum.splits)
  have "distinct (map fst (z_partial ver (receipt_shape ver)))"
    by (simp add: partial_receipt_keys receipt_keys_def)
  from parse_shape_get [OF p this assms(2)] r show ?thesis by simp
qed

lemma string_field_typed:
  "run (z_optional ver (merchant_schema ver)) v = Inr w \<Longrightarrow> is_string_or_absent w"
  by (cases v) (auto simp: run_merchant_field absent_result_def)

lemma string_field_accepts:
  "is_string_or_absent v \<Longrightarrow> \<exists>w. run (z_optional ver (merchant_schema ver)) v = Inr w"
  by (cases v) (auto simp: run_merchant_field)

lemma txn_date_field_typed:
  "run (z_optional ver (txn_date_schema ver)) v = Inr w \<Longrightarrow> is_string_or_absent w"
  by (cases v) (auto simp: run_txn_date_field absent_result_def split: if_splits)

lemma currency_field_typed:
  "run (z_optional ver (currency_schema ver)) v = Inr w \<Longrightarrow> is_string_or_absent w"
  by (cases v) (auto simp: run_currency_field split: if_splits)

lemma run_total_cents_field:
  "run (z_optional ver (total_cents_schema ver)) v =
     (if v = VUndefined then Inr (absent_result ver)
      else if cents_in_range ver (total_cents_pre v) then Inr (total_cents_pre v)
      else Inl ZodError)"
proof (cases "v = VUndefined")
  case True
  then show ?thesis
    by (cases ver) (simp_all add: total_cents_schema_def zdefs absent_result_def total_cents_pre_def)
next
  case False
  have "run (z_nullable (z_gte (Fin 0) (z_int ver (z_number ver)))) p =
      (if cents_in_range ver p then Inr p else Inl ZodError)" for p
  proof (cases p)
    case (VNum n)
    then show ?thesis
      by (cases n; cases ver) (auto simp: zdefs int_check_def max_safe_integer_def)
  qed (simp_all add: zdefs)
  moreover have "total_cents_pre v \<noteq> VUndefined"
    by (simp add: total_cents_pre_def Let_def split: jsval.split)
  ultimately show ?thesis using False
    by (cases ver; cases "total_cents_pre v")
       (simp_all add: total_cents_schema_def z_optional_def z_default_def z_preprocess_def)
qed

lemma run_confidence_field:
  "run (z_optional ver (confidence_schema ver)) v =
     (if v = VUndefined then Inr (absent_result ver)
      else if confidence_in_range (confidence_pre v) then Inr (confidence_pre v)
      else Inl ZodError)"
proof (cases "v = VUndefined")
  case True
  then show ?thesis
    by (cases ver) (simp_all add: confidence_schema_def zdefs absent_result_def confidence_pre_def)
next
  case False
  have "run (z_nullable (z_lte (Fin 1) (z_gte (Fin 0) (z_number ver)))) p =
      (if confidence_in_range p then Inr p else Inl ZodError)" for p
  proof (cases p)
    case (VNum n)
    then show ?thesis
      by (cases n; cases ver) (auto simp: zdefs)
  qed (simp_all add: zdefs)
  moreover have "confidence_pre v \<noteq> VUndefined"
    by (simp add: confidence_pre_def Let_def split: jsval.split)
  ultimately show ?thesis using False
    by (cases ver; cases "confidence_pre v")
       (simp_all add: confidence_schema_def z_optional_def z_default_def z_preprocess_def)
qed

lemma cents_field_accepts:
  "cents_in_range ver (total_cents_pre v) \<Longrightarrow>
   \<exists>w. run (z_optional ver (total_cents_schema ver)) v = Inr w"
  by (simp add: run_total_cents_field)

lemma confidence_field_accepts:
  "confidence_in_range (confidence_pre v) \<Longrightarrow>
   \<exists>w. run (z_optional ver (confidence_schema ver)) v = Inr w"
  by (simp add: run_confidence_field)

lemma category_schema_eq: "category_schema ver = merchant_schema ver"
  by (simp add: category_schema_def merchant_schema_def)

lemma notes_schema_eq: "notes_schema ver = merchant_schema ver"
  by (simp add: notes_schema_def merchant_schema_def)

lemma ReceiptSchema_extraneous:
  "run (ReceiptSchema ver) (VObj (filter (\<lambda>(k, w). k \<in> set receipt_keys) kvs)) =
   run (ReceiptSchema ver) (VObj kvs)"
proof -
  have "parse_shape (z_partial ver (receipt_shape ver)) (filter (\<lambda>(k, w). k \<in> set receipt_keys) kvs) =
        parse_shape (z_partial ver (receipt_shape ver)) kvs"
    by (rule parse_shape_cong) (simp add: partial_receipt_keys map_of_filter_keys)
  then show ?thesis
    by (simp add: ReceiptSchema_VObj)
qed

lemma ReceiptSchema_accepts:
  assumes "accepted_input ver kvs"
  shows "\<exists>r. run (ReceiptSchema ver) (VObj kvs) = Inr r"
proof -
  have "\<exists>w. run s (get_prop (VObj kvs) k) = Inr w"
    if "(k, s) \<in> set (z_partial ver (receipt_shape ver))" for k s
  proof -
    have t: "\<exists>w. run (z_optional ver (txn_date_schema ver)) v = Inr w" for v
      by (cases v) (simp_all add: run_txn_date_field)
    have c: "\<exists>w. run (z_optional ver (currency_schema ver)) v = Inr w" for v
      by (cases v) (simp_all add: run_currency_field)
    from that assms show ?thesis
      unfolding partial_receipt_shape accepted_input_def category_schema_eq notes_schema_eq
      using t c by (auto intro: string_field_accepts cents_field_accepts confidence_field_accepts)
  qed
  from parse_shape_accepts [of "z_partial ver (receipt_shape ver)" kvs, OF this]
  show ?thesis
    by (auto simp: ReceiptSchema_VObj)
qed

lemma ReceiptSchema_typed:
  assumes "run (ReceiptSchema ver) v = Inr r"
  shows "typed_receipt r"
proof -
  from assms obtain kvs where v: "v = VObj kvs"
    using ReceiptSchema_not_object [of v ver] by auto
  with assms obtain out where r: "r = VObj out"
    and p: "parse_shape (z_partial ver (receipt_shape ver)) kvs = Inr out"
    by (auto simp: ReceiptSchema_VObj split: sum.splits)
  from parse_shape_keys [OF p] have k: "list_all (\<lambda>k. k \<in> set receipt_keys) (map fst out)"
    by (auto simp: partial_receipt_keys list_all_iff)
  note f = ReceiptSchema_field [OF assms [unfolded v], unfolded partial_receipt_shape]
  have "is_string_or_absent (get_prop r ''merchant'')"
    by (rule string_field_typed [OF f]) simp
  moreover have "is_string_or_absent (get_prop r ''txn_date'')"
    by (rule txn_date_field_typed [OF f]) simp
  moreover have "is_cents_or_absent (get_prop r ''total_cents'')"
    by (rule cents_field_typed [OF f]) simp
  moreover have "is_string_or_absent (get_prop r ''currency'')"
    by (rule currency_field_typed [OF f]) simp
  moreover have "is_string_or_absent (get_prop r ''category'')"
    by (rule string_field_typed [OF f [unfolded category_schema_eq]]) simp
  moreover have "is_confidence_or_absent (get_prop r ''confidence'')"
    by (rule confidence_field_typed [OF f]) simp
  moreover have "is_string_or_absent (get_prop r ''notes'')"
    by (rule string_field_typed [OF f [unfolded notes_schema_eq]]) simp
  ultimately show ?thesis
    using k by (simp add: typed_receipt_def r)
qed

lemma parse_shape_error: "parse_shape sh kvs = Inl e \<Longrightarrow> e = ZodError"
  by (induction sh arbitrary: e) (auto split: sum.splits)

lemma ReceiptSchema_error: "run (ReceiptSchema ver) v = Inl e \<Longrightarrow> e = ZodError"
  by (cases v) (auto simp: ReceiptSchema_def z_object_def dest: parse_shape_error split: sum.splits)

lemma ReceiptSchema_field_error:
  assumes "(k, s) \<in> set (z_partial ver (receipt_shape ver))"
    and "run s (get_prop (VObj kvs) k) = Inl e"
  shows "run (ReceiptSchema ver) (VObj kvs) = Inl ZodError"
proof (cases "run (ReceiptSchema ver) (VObj kvs)")
  case (Inl a)
  then show ?thesis by (simp add: ReceiptSchema_error)
next
  case (Inr r)
  from ReceiptSchema_field [OF Inr assms(1)] assms(2) show ?thesis by simp
qed

lemma total_cents_raises:
  assumes "total_cents_pre (get_prop (VObj kvs) ''total_cents'') = VNum (Fin q)"
    and "get_prop (VObj kvs) ''total_cents'' \<noteq> VUndefined"
    and "q < 0 \<or> of_int \<lfloor>q\<rfloor> \<noteq> q"
  shows "run (ReceiptSchema ver) (VObj kvs) = Inl ZodError"
proof -
  from assms have "run (z_optional ver (total_cents_schema ver)) (get_prop (VObj kvs) ''total_cents'') = Inl ZodError"
    by (cases ver) (auto simp: total_cents_schema_def zdefs int_check_def simp del: get_prop.simps)
  then show ?thesis
    by (rule ReceiptSchema_field_error [rotated]) (simp add: partial_receipt_shape)
qed

lemma confidence_raises:
  assumes "confidence_pre (get_prop (VObj kvs) ''confidence'') = VNum (Fin q)"
    and "get_prop (VObj kvs) ''confidence'' \<noteq> VUndefined"
    and "q < 0 \<or> 1 < q"
  shows "run (ReceiptSchema ver) (VObj kvs) = Inl ZodError"
proof -
  from assms have "run (z_optional ver (confidence_schema ver)) (get_prop (VObj kvs) ''confidence'') = Inl ZodError"
    by (cases ver) (auto simp: confidence_schema_def zdefs simp del: get_prop.simps)
  then show ?thesis
    by (rule ReceiptSchema_field_error [rotated]) (simp add: partial_receipt_shape)
qed

lemma floor_23_47:
  "rat_of_int \<lfloor>825777212924887 / 35184372088832 :: rat\<rfloor> \<noteq> 825777212924887 / 35184372088832"
proof -
  have "\<lfloor>825777212924887 / 35184372088832 :: rat\<rfloor> = 23"
    by (rule floor_unique) simp_all
  then show ?thesis by simp
qed

lemma set_column_ids: "user_id (set_column kv t) = user_id t \<and> txn_id (set_column kv t) = txn_id t"
  by (simp add: set_column_def)

lemma apply_update_ids: "user_id (apply_update upd t) = user_id t \<and> txn_id (apply_update upd t) = txn_id t"
  by (induction upd) (simp_all add: apply_update_def set_column_ids)

lemma no_owned_rows: "belongs_to_other i uid w \<Longrightarrow> filter (owned i uid) (rows w) = []"
  by (auto simp: belongs_to_other_def owned_def list_all_iff filter_empty_conv)

lemma others_filter_not_owned:
  "filter (\<lambda>t. user_id t \<noteq> uid) (filter (\<lambda>t. \<not> owned i uid t) ts) = filter (\<lambda>t. user_id t \<noteq> uid) ts"
  by (induction ts) (auto simp: owned_def)

lemma others_not_owned:
  "filter (\<lambda>x. \<not> owned i uid x \<and> user_id x \<noteq> uid) ts = filter (\<lambda>t. user_id t \<noteq> uid) ts"
  by (rule filter_cong) (auto simp: owned_def)

lemma others_map_owned:
  "filter (\<lambda>t. user_id t \<noteq> uid) (map (\<lambda>t. if owned i uid t then apply_update upd t else t) ts) =
   filter (\<lambda>t. user_id t \<noteq> uid) ts"
  by (induction ts) (auto simp: owned_def apply_update_ids)

lemma GET_scoped:
  assumes "getUserFromRequest e req = Inr uid"
  shows "snd (GET e req w) = w \<and>
    (\<forall>ts s. fst (GET e req w) = Json (Transactions ts) s \<longrightarrow>
       set ts = {t \<in> set (rows w). user_id t = uid})"
  using assms by (auto simp: GET_def split: option.splits)

lemma DELETE_other:
  assumes "getUserFromRequest e req = Inr uid" and "belongs_to_other i uid w"
    and "json_body req = Some body" and "get_prop body ''id'' = VStr i" and "i \<noteq> []"
  shows "snd (DELETE e req w) = w \<and>
    (fault e Call_select = None \<longrightarrow> fst (DELETE e req w) = Json (Err ''Not found.'') 404)"
  using assms no_owned_rows [OF assms(2)]
  by (simp add: DELETE_def maybeSingle_def split: option.split)

lemma remove_image_rows: "rows (snd (remove_image e t w)) = rows w"
  by (simp add: remove_image_def split: option.split)

lemma delete_row_frame: "rows_of_others uid (snd (delete_row e i uid w)) = rows_of_others uid w"
  by (simp add: delete_row_def rows_of_others_def others_not_owned
      split: option.split sum.split)

lemma DELETE_frame:
  assumes "getUserFromRequest e req = Inr uid"
  shows "rows_of_others uid (snd (DELETE e req w)) = rows_of_others uid w"
proof -
  have "rows_of_others uid (snd (case remove_image e t w of
          (Some m, w1) \<Rightarrow> (Json (Err m) 500, w1)
        | (None, w1) \<Rightarrow> delete_row e i uid w1)) = rows_of_others uid w" for t i
  proof (cases "remove_image e t w")
    case (Pair stop w1)
    with remove_image_rows [of e t w] have r: "rows w1 = rows w" by simp
    then have "rows_of_others uid w1 = rows_of_others uid w"
      by (simp add: rows_of_others_def)
    with Pair delete_row_frame [of uid e i w1] show ?thesis
      by (cases stop) simp_all
  qed
  with assms show ?thesis
    by (simp add: DELETE_def Let_def split: option.split sum.split)
qed

lemma z_object_field:
  assumes "run (z_object uk shape) (VObj kvs) = Inr r"
    and "distinct (map fst shape)" and "(k, s) \<in> set shape"
  shows "run s (get_prop (VObj kvs) k) = Inr (get_prop r k)"
proof -
  from assms(1) obtain out where r: "r = VObj out" and p: "parse_shape shape kvs = Inr out"
    by (auto simp: z_object_def split: sum.splits if_splits)
  from parse_shape_get [OF p assms(2,3)] r show ?thesis by simp
qed

lemma PatchBodySchema_id:
  assumes "run (PatchBodySchema ver) body = Inr parsed" and "get_prop body ''id'' = VStr i"
  shows "get_prop parsed ''id'' = VStr i"
proof -
  from assms(1) obtain kvs where b: "body = VObj kvs"
    by (cases body) (auto simp: PatchBodySchema_def z_object_def)
  have "run (z_min_length 1 z_string) (get_prop (VObj kvs) ''id'') = Inr (get_prop parsed ''id'')"
    by (rule z_object_field [OF assms(1) [unfolded b PatchBodySchema_def]]) simp_all
  with assms(2) b show ?thesis
    by (auto simp: z_min_length_def z_string_def split: if_splits)
qed

lemma PATCH_other:
  assumes "getUserFromRequest e req = Inr uid" and "belongs_to_other i uid w"
    and "json_body req = Some body" and "get_prop body ''id'' = VStr i"
  shows "rows (snd (PATCH e req w)) = rows w \<and> objects (snd (PATCH e req w)) = objects w \<and>
    (\<forall>parsed. run (PatchBodySchema (zod e)) body = Inr parsed \<and> patch_update parsed \<noteq> [] \<and>
       fault e Call_update = None \<longrightarrow> fst (PATCH e req w) = Json (Err ''Not found.'') 404)"
proof (cases "run (PatchBodySchema (zod e)) body")
  case (Inl x)
  with assms show ?thesis by (simp add: PATCH_def)
next
  case (Inr parsed)
  from PatchBodySchema_id [OF Inr assms(4)] have "str_of (get_prop parsed ''id'') = i" by simp
  with assms(1,3) Inr no_owned_rows [OF assms(2)] show ?thesis
    by (simp add: PATCH_def Let_def maybeSingle_def split: option.split)
qed

lemma maybeSingle_member: "maybeSingle xs = Inr (Some x) \<Longrightarrow> x \<in> set xs"
  by (auto simp: maybeSingle_def split: list.splits)

lemma PATCH_frame:
  assumes "getUserFromRequest e req = Inr uid"
  shows "rows_of_others uid (snd (PATCH e req w)) = rows_of_others uid w \<and>
    (\<forall>t s. fst (PATCH e req w) = Json (Transaction t) s \<longrightarrow> user_id t = uid)"
proof -
  define body where "body = (case json_body req of Some j \<Rightarrow> j | None \<Rightarrow> VNull)"
  show ?thesis
  proof (cases "run (PatchBodySchema (zod e)) body")
    case (Inl x)
    with assms show ?thesis by (simp add: PATCH_def body_def)
  next
    case (Inr parsed)
    define i where "i = str_of (get_prop parsed ''id'')"
    define upd where "upd = patch_update parsed"
    show ?thesis
    proof (cases "upd = [] \<or> fault e Call_update \<noteq> None")
      case True
      with assms Inr show ?thesis
        by (auto simp: PATCH_def body_def [symmetric] upd_def [symmetric] Let_def rows_of_others_def)
    next
      case False
      show ?thesis
      proof (cases "maybeSingle (filter (owned i uid) (rows w))")
        case (Inl m)
        with assms Inr False show ?thesis
          by (auto simp: PATCH_def body_def [symmetric] upd_def [symmetric] i_def [symmetric]
              Let_def rows_of_others_def)
      next
        case r: (Inr found)
        show ?thesis
        proof (cases found)
          case None
          with assms Inr False r show ?thesis
            by (auto simp: PATCH_def body_def [symmetric] upd_def [symmetric] i_def [symmetric]
                Let_def rows_of_others_def)
        next
          case (Some t)
          with r have "t \<in> set (filter (owned i uid) (rows w))"
            by (auto dest: maybeSingle_member)
          then have "user_id (apply_update upd t) = uid"
            by (simp add: owned_def apply_update_ids)
          with assms Inr False r Some show ?thesis
            by (auto simp: PATCH_def body_def [symmetric] upd_def [symmetric] i_def [symmetric]
                Let_def rows_of_others_def others_map_owned)
        qed
      qed
    qed
  qed
qed

lemma POST_frame:
  assumes "getUserFromRequest e req = Inr uid"
  shows "rows_of_others uid (snd (POST e req w)) = rows_of_others uid w"
  using assms
  by (simp add: POST_def Let_def rows_of_others_def insert_row_def split: option.split sum.split)

lemma GET_image_frame: "snd (GET_image e req w) = w"
  by (simp add: GET_image_def Let_def split: option.split sum.split)

lemma number_23_47: "Number_of_string ''23.47'' = Fin (825777212924887 / 35184372088832)"
  by code_simp

section \<open>The claims\<close>

text \<open>
  Claim C1, as amended. The normalizer is defined on JSON objects only: it throws a
  validation error on \<^verbatim>\<open>null\<close>, on an array and on every other value that is not an
  object. On an object, keys outside the seven fields are ignored (the result is the one
  for the object without them), and none of the following makes it fail: a missing key,
  a \<^verbatim>\<open>null\<close>, a txn\_date or a currency of any type, a total\_cents or a confidence that
  is neither a number nor a string that \<^verbatim>\<open>Number\<close> reads as a finite number, a
  total\_cents that is (or reads as) a non-negative integer (a safe one under zod 4), a
  confidence that is (or reads as) a number from 0 to 1, and a merchant, a category or
  notes that are a string. Every record the normalizer returns has only the seven keys,
  each with a value of the field's type or no value (\<^verbatim>\<open>null\<close>, or the key left out).
  What the normalizer does with a merchant, category or notes of another type, and with a
  total\_cents or confidence number out of range, is left out of this statement: there
  the code throws, against the comment above the schema (claims C2 and C3).
\<close>

theorem normalizer_defined_on_objects:
  "((\<forall>kvs. v \<noteq> VObj kvs) \<longrightarrow> run (ReceiptSchema ver) v = Inl ZodError) \<and>
   run (ReceiptSchema ver) (VObj (filter (\<lambda>(k, w). k \<in> set receipt_keys) kvs)) =
     run (ReceiptSchema ver) (VObj kvs) \<and>
   (accepted_input ver kvs \<longrightarrow> (\<exists>r. run (ReceiptSchema ver) (VObj kvs) = Inr r)) \<and>
   (run (ReceiptSchema ver) v = Inr r \<longrightarrow> typed_receipt r)"
  using ReceiptSchema_not_object [of v ver] ReceiptSchema_extraneous [of ver kvs]
    ReceiptSchema_accepts [of ver kvs] ReceiptSchema_typed [of ver v r]
  by blast

theorem normalizer_defined_on_objects_witness:
  "run (ReceiptSchema Zod4) VNull = Inl ZodError \<and>
   (\<exists>r. run (ReceiptSchema Zod4)
      (VObj [(''merchant'', VStr ''Costco''), (''txn_date'', VNum (Fin 5)),
             (''total_cents'', VBool True), (''currency'', VObj []),
             (''confidence'', VStr ''abc''), (''tax'', VNum (Fin 1))]) = Inr r) \<and>
   (\<exists>r. run (ReceiptSchema Zod3)
      (VObj [(''total_cents'', VStr ''12''), (''confidence'', VArr [])]) = Inr r) \<and>
   typed_receipt (VObj [(''merchant'', VStr ''Costco'')])"
proof -
  let ?a = "[(''merchant'', VStr ''Costco''), (''txn_date'', VNum (Fin 5)),
             (''total_cents'', VBool True), (''currency'', VObj []),
             (''confidence'', VStr ''abc''), (''tax'', VNum (Fin 1))]"
  let ?b = "[(''total_cents'', VStr ''12''), (''confidence'', VArr [])]"
  let ?r = "VObj [(''merchant'', VStr ''Costco'')]"
  have n: "\<forall>kvs. VNull \<noteq> VObj kvs" by simp
  have abc: "Number_of_string ''abc'' = NaN"
    by code_simp
  have twelve: "Number_of_string ''12'' = Fin 12"
    by code_simp
  have a: "accepted_input Zod4 ?a"
    by (simp add: accepted_input_def total_cents_pre_def confidence_pre_def abc)
  have b: "accepted_input Zod3 ?b"
    by (simp add: accepted_input_def total_cents_pre_def confidence_pre_def twelve)
  have c: "run (ReceiptSchema Zod3) ?r = Inr ?r"
    by code_simp
  from normalizer_defined_on_objects [of VNull Zod4 ?a] n a
  have "run (ReceiptSchema Zod4) VNull = Inl ZodError"
    and "\<exists>r. run (ReceiptSchema Zod4) (VObj ?a) = Inr r"
    by blast+
  moreover from normalizer_defined_on_objects [of ?r Zod3 ?b ?r] b c
  have "\<exists>r. run (ReceiptSchema Zod3) (VObj ?b) = Inr r" and "typed_receipt ?r"
    by blast+
  ultimately show ?thesis by blast
qed

text \<open>The normalizer throws on \<^verbatim>\<open>null\<close> and on the empty array, in both versions of
  the library.\<close>

theorem normalizer_rejects_non_objects:
  "run (ReceiptSchema Zod3) VNull = Inl ZodError \<and>
   run (ReceiptSchema Zod4) VNull = Inl ZodError \<and>
   run (ReceiptSchema Zod3) (VArr []) = Inl ZodError \<and>
   run (ReceiptSchema Zod4) (VArr []) = Inl ZodError"
  by (simp add: ReceiptSchema_def z_object_def)

text \<open>A merchant that is present and is neither a string nor \<^verbatim>\<open>null\<close> makes the
  parse throw, although the comment above the schema says that invalid values become
  \<^verbatim>\<open>null\<close>: the schemas of merchant, category and notes have no preprocessing step,
  unlike those of the four other fields.\<close>

lemma text_field_of_other_type_raises:
  "run (ReceiptSchema ver) (VObj [(''merchant'', VNum (Fin 5))]) = Inl ZodError"
  by (rule ReceiptSchema_field_error [where k = "''merchant''"
        and s = "z_optional ver (merchant_schema ver)" and e = ZodError])
     (simp_all add: partial_receipt_shape run_merchant_field)

text \<open>
  Claim C2 says that a negative total\_cents, or a numeric string that denotes a
  non-integer such as \<^verbatim>\<open>"23.47"\<close>, is normalized to the absent-marker without a
  failure. The code does not do that: the preprocessing step hands the number on, the
  schema \<^verbatim>\<open>z.number().int().nonnegative()\<close> refuses it, and the whole parse throws. The
  comment above the schema (\<^verbatim>\<open>missing/invalid values become null\<close>) and the update path
  (\<^verbatim>\<open>PatchBodySchema\<close>, which maps a negative amount to \<^verbatim>\<open>null\<close>) say what was meant.
  The theorem evaluates the normalizer on \<^verbatim>\<open>{total_cents: -5}\<close> and on
  \<^verbatim>\<open>{total_cents: "23.47"}\<close>.
\<close>

theorem total_cents_invalid_raises:
  "run (ReceiptSchema Zod3) (VObj [(''total_cents'', VNum (Fin (- 5)))]) = Inl ZodError \<and>
   run (ReceiptSchema Zod4) (VObj [(''total_cents'', VNum (Fin (- 5)))]) = Inl ZodError \<and>
   run (ReceiptSchema Zod3) (VObj [(''total_cents'', VStr ''23.47'')]) = Inl ZodError \<and>
   run (ReceiptSchema Zod4) (VObj [(''total_cents'', VStr ''23.47'')]) = Inl ZodError"
proof -
  have "run (ReceiptSchema ver) (VObj [(''total_cents'', VNum (Fin (- 5)))]) = Inl ZodError" for ver
    by (rule total_cents_raises [where q = "- 5"]) (simp_all add: total_cents_pre_def)
  moreover
  have "run (ReceiptSchema ver) (VObj [(''total_cents'', VStr ''23.47'')]) = Inl ZodError" for ver
  proof (rule total_cents_raises [where q = "825777212924887 / 35184372088832"])
    show "(825777212924887 / 35184372088832 :: rat) < 0 \<or>
      rat_of_int \<lfloor>825777212924887 / 35184372088832 :: rat\<rfloor> \<noteq> 825777212924887 / 35184372088832"
      using floor_23_47 by blast
  qed (simp_all add: total_cents_pre_def number_23_47)
  ultimately show ?thesis by simp
qed

text \<open>
  Claim C3 says that an out-of-range confidence such as 1.5 becomes the absent-marker
  without a failure, and that an in-range value such as 0 is returned unchanged. The
  second part holds; on 1.5 the schema \<^verbatim>\<open>z.number().min(0).max(1)\<close> refuses the number
  and the whole parse throws, against the comment above the schema
  (\<^verbatim>\<open>missing/invalid values become null\<close>).
\<close>

theorem confidence_out_of_range_raises:
  "run (ReceiptSchema Zod3) (VObj [(''confidence'', VNum (Fin (3 / 2)))]) = Inl ZodError \<and>
   run (ReceiptSchema Zod4) (VObj [(''confidence'', VNum (Fin (3 / 2)))]) = Inl ZodError \<and>
   run (ReceiptSchema Zod3) (VObj [(''confidence'', VNum (Fin 0))]) =
     Inr (VObj [(''confidence'', VNum (Fin 0))])"
proof -
  have "run (ReceiptSchema ver) (VObj [(''confidence'', VNum (Fin (3 / 2)))]) = Inl ZodError" for ver
    by (rule confidence_raises [where q = "3 / 2"]) (simp_all add: confidence_pre_def)
  moreover
  have "run (ReceiptSchema Zod3) (VObj [(''confidence'', VNum (Fin 0))]) =
     Inr (VObj [(''confidence'', VNum (Fin 0))])"
    by code_simp
  ultimately show ?thesis by simp
qed

text \<open>
  Claim C4, as amended. The source type of a request is normalized as follows:
  \<^verbatim>\<open>receipt\<close>, \<^verbatim>\<open>camera\<close> and \<^verbatim>\<open>upload\<close> give \<^verbatim>\<open>receipt\<close>, \<^verbatim>\<open>screenshot\<close> gives
  \<^verbatim>\<open>screenshot\<close>, and every other value, a string outside the enumeration or a value
  that is not a string, is refused with a validation error.
\<close>

theorem source_type_normalization:
  "run SourceTypeInputSchema v =
     (if v \<in> set (map VStr [''receipt'', ''camera'', ''upload'']) then Inr (VStr ''receipt'')
      else if v = VStr ''screenshot'' then Inr (VStr ''screenshot'')
      else Inl ZodError)"
  by (cases v) (auto simp: SourceTypeInputSchema_def z_transform_def z_enum_def)

theorem source_type_normalization_witness:
  "run SourceTypeInputSchema (VStr ''camera'') = Inr (VStr ''receipt'') \<and>
   run SourceTypeInputSchema (VStr ''screenshot'') = Inr (VStr ''screenshot'') \<and>
   run SourceTypeInputSchema (VNum (Fin 1)) = Inl ZodError"
  using source_type_normalization [of "VStr ''camera''"]
    source_type_normalization [of "VStr ''screenshot''"]
    source_type_normalization [of "VNum (Fin 1)"]
  by simp

text \<open>The unrecognized source type \<^verbatim>\<open>scan\<close> is refused, not mapped to
  \<^verbatim>\<open>receipt\<close>, and a request body that carries it is refused as a whole.\<close>

theorem unrecognized_source_type_rejected:
  "run SourceTypeInputSchema (VStr ''scan'') = Inl ZodError \<and>
   run BodySchema (VObj [(''imagePath'', VStr ''u1/a.png''), (''sourceType'', VStr ''scan'')]) = Inl ZodError"
  by code_simp

lemma eval_merchant_padded:
  "run (ReceiptSchema Zod3) (VObj [(''merchant'', VStr '' Costco '')]) =
     Inr (VObj [(''merchant'', VStr '' Costco '')])"
  by code_simp

lemma eval_empty_Zod4:
  "run (ReceiptSchema Zod4) (VObj []) =
     Inr (VObj [(''merchant'', VNull), (''txn_date'', VNull), (''total_cents'', VNull),
       (''currency'', VStr ''CAD''), (''category'', VNull), (''confidence'', VNull), (''notes'', VNull)])"
  by code_simp

lemma eval_empty_Zod3: "run (ReceiptSchema Zod3) (VObj []) = Inr (VObj [])"
  by code_simp

text \<open>
  Claim C5, as amended. A merchant that is a string, \<^verbatim>\<open>null\<close> or missing never makes
  the normalizer fail: an object is accepted whatever string its merchant is, when
  category and notes are a string, \<^verbatim>\<open>null\<close> or missing and total\_cents and confidence
  are in range. Whenever the normalizer returns a record for an object, the merchant of
  the record is the merchant of the object unchanged: a string as it is (not trimmed,
  and the empty string stays the empty string), \<^verbatim>\<open>null\<close> for \<^verbatim>\<open>null\<close>, and no value
  for a missing merchant (the key left out under zod 3, \<^verbatim>\<open>null\<close> under zod 4).
\<close>

theorem merchant_passed_through:
  "(accepted_input ver kvs \<longrightarrow> (\<exists>r. run (ReceiptSchema ver) (VObj kvs) = Inr r)) \<and>
   (run (ReceiptSchema ver) (VObj kvs) = Inr r \<longrightarrow>
      get_prop r ''merchant'' = normal_text ver (get_prop (VObj kvs) ''merchant''))"
proof -
  have "get_prop r ''merchant'' = normal_text ver (get_prop (VObj kvs) ''merchant'')"
    if ok: "run (ReceiptSchema ver) (VObj kvs) = Inr r"
  proof -
    define v where "v = get_prop (VObj kvs) ''merchant''"
    define w where "w = get_prop r ''merchant''"
    have "run (z_optional ver (merchant_schema ver)) v = Inr w"
      unfolding v_def w_def
      by (rule ReceiptSchema_field [OF ok]) (simp add: partial_receipt_shape)
    then have "w = normal_text ver v"
      by (cases v) (auto simp: run_merchant_field normal_text_def)
    then show ?thesis
      by (simp only: v_def w_def)
  qed
  with ReceiptSchema_accepts [of ver kvs] show ?thesis
    by blast
qed

theorem merchant_passed_through_witness:
  "(\<exists>r. run (ReceiptSchema Zod4) (VObj [(''merchant'', VStr '' Costco '')]) = Inr r) \<and>
   get_prop (VObj [(''merchant'', VStr '' Costco '')]) ''merchant'' = VStr '' Costco '' \<and>
   get_prop (VObj [(''merchant'', VNull), (''txn_date'', VNull), (''total_cents'', VNull),
       (''currency'', VStr ''CAD''), (''category'', VNull), (''confidence'', VNull), (''notes'', VNull)])
     ''merchant'' = absent_result Zod4"
proof -
  let ?kvs = "[(''merchant'', VStr '' Costco '')]"
  have a: "accepted_input Zod4 ?kvs"
    by (simp add: accepted_input_def total_cents_pre_def confidence_pre_def)
  have n: "normal_text Zod3 (get_prop (VObj ?kvs) ''merchant'') = VStr '' Costco ''"
    "normal_text Zod4 (get_prop (VObj []) ''merchant'') = absent_result Zod4"
    by (simp_all add: normal_text_def)
  from merchant_passed_through [of Zod4 ?kvs, THEN conjunct1, THEN mp, OF a]
    merchant_passed_through [THEN conjunct2, THEN mp, OF eval_merchant_padded]
    merchant_passed_through [THEN conjunct2, THEN mp, OF eval_empty_Zod4] n
  show ?thesis
    by (simp only: simp_thms)
qed

text \<open>A merchant with surrounding blanks is returned with them, and an empty merchant
  is returned as the empty string, not as \<^verbatim>\<open>null\<close>.\<close>

theorem merchant_not_trimmed:
  "run (ReceiptSchema Zod3) (VObj [(''merchant'', VStr '' Costco '')]) =
     Inr (VObj [(''merchant'', VStr '' Costco '')]) \<and>
   trim '' Costco '' = ''Costco'' \<and>
   run (ReceiptSchema Zod3) (VObj [(''merchant'', VStr [])]) = Inr (VObj [(''merchant'', VStr [])]) \<and>
   trim [] = []"
  by code_simp

lemma eval_date_padded:
  "run (ReceiptSchema Zod3) (VObj [(''txn_date'', VStr '' 2024-01-05'')]) =
     Inr (VObj [(''txn_date'', VStr ''2024-01-05'')])"
  by code_simp

lemma eval_date_short:
  "run (ReceiptSchema Zod3) (VObj [(''txn_date'', VStr ''2024-1-5'')]) =
     Inr (VObj [(''txn_date'', VNull)])"
  by code_simp

text \<open>
  Claim C6, as amended. No txn\_date makes the normalizer fail, and whenever the
  normalizer returns a record for an object, the txn\_date of the record is the trimmed
  input string (the input without its surrounding white space, not the input as it was
  given) when the input is a string whose trimmed form matches four digits, dash, two
  digits, dash, two digits; it is \<^verbatim>\<open>null\<close> for every other value that is present (the
  empty string, quote artifacts, text such as \<^verbatim>\<open>2024-1-5\<close>, a value that is not a
  string); and for a missing txn\_date it is no value (the key left out under zod 3,
  \<^verbatim>\<open>null\<close> under zod 4).
\<close>

theorem txn_date_normalized:
  "(accepted_input ver kvs \<longrightarrow> (\<exists>r. run (ReceiptSchema ver) (VObj kvs) = Inr r)) \<and>
   (run (ReceiptSchema ver) (VObj kvs) = Inr r \<longrightarrow>
      get_prop r ''txn_date'' = normal_txn_date ver (get_prop (VObj kvs) ''txn_date''))"
proof -
  have f: "run (z_optional ver (txn_date_schema ver)) v = Inr (normal_txn_date ver v)" for v
    by (cases v) (simp_all add: run_txn_date_field normal_txn_date_def)
  have "get_prop r ''txn_date'' = normal_txn_date ver (get_prop (VObj kvs) ''txn_date'')"
    if ok: "run (ReceiptSchema ver) (VObj kvs) = Inr r"
  proof -
    have "run (z_optional ver (txn_date_schema ver)) (get_prop (VObj kvs) ''txn_date'') =
          Inr (get_prop r ''txn_date'')"
      by (rule ReceiptSchema_field [OF ok]) (simp add: partial_receipt_shape)
    then show ?thesis
      by (simp only: f sum.inject)
  qed
  with ReceiptSchema_accepts [of ver kvs] show ?thesis
    by blast
qed

theorem txn_date_normalized_witness:
  "(\<exists>r. run (ReceiptSchema Zod4) (VObj [(''txn_date'', VBool True)]) = Inr r) \<and>
   get_prop (VObj [(''txn_date'', VNull)]) ''txn_date'' = normal_txn_date Zod3 (VStr ''2024-1-5'') \<and>
   normal_txn_date Zod3 (VStr ''2024-1-5'') = VNull \<and>
   get_prop (VObj [(''txn_date'', VStr ''2024-01-05'')]) ''txn_date'' =
     normal_txn_date Zod3 (VStr '' 2024-01-05'') \<and>
   normal_txn_date Zod3 (VStr '' 2024-01-05'') = VStr ''2024-01-05''"
proof -
  let ?kvs = "[(''txn_date'', VBool True)]"
  have a: "normal_txn_date Zod3 (VStr ''2024-1-5'') = VNull"
    by code_simp
  have b: "normal_txn_date Zod3 (VStr '' 2024-01-05'') = VStr ''2024-01-05''"
    by code_simp
  have c: "accepted_input Zod4 ?kvs"
    by (simp add: accepted_input_def total_cents_pre_def confidence_pre_def)
  from txn_date_normalized [of Zod4 ?kvs, THEN conjunct1, THEN mp, OF c]
    txn_date_normalized [THEN conjunct2, THEN mp, OF eval_date_short]
    txn_date_normalized [THEN conjunct2, THEN mp, OF eval_date_padded] a b
  show ?thesis by simp
qed

text \<open>The date \<^verbatim>\<open>" 2024-01-05"\<close>, with a blank before it, matches the pattern once it is
  trimmed; the normalizer returns \<^verbatim>\<open>"2024-01-05"\<close>, which is not the input string.\<close>

theorem txn_date_is_trimmed_input:
  "run (ReceiptSchema Zod3) (VObj [(''txn_date'', VStr '' 2024-01-05'')]) =
     Inr (VObj [(''txn_date'', VStr ''2024-01-05'')]) \<and>
   iso_date_regex (trim '' 2024-01-05'') \<and>
   '' 2024-01-05'' \<noteq> ''2024-01-05''"
  by code_simp

lemma eval_currency_usd:
  "run (ReceiptSchema Zod3) (VObj [(''currency'', VStr ''usd'')]) =
     Inr (VObj [(''currency'', VStr ''USD'')])"
  by code_simp

text \<open>
  Claim C7, as amended. No currency makes the normalizer fail. Whenever the normalizer
  returns a record for an object, the currency that is stored with the transaction
  (\<^verbatim>\<open>parsed.currency ?? "CAD"\<close>) is \<^verbatim>\<open>CAD\<close> when the currency of the object is missing,
  \<^verbatim>\<open>null\<close>, not a string or empty after trimming, and the trimmed input in upper case
  otherwise. The currency of the record itself is the same string, with one exception:
  under zod 3 a missing currency key is left out of the record (\<^verbatim>\<open>.partial()\<close> returns
  before the default is reached), and the fallback of the insert supplies \<^verbatim>\<open>CAD\<close>.
\<close>

theorem currency_normalized:
  "(accepted_input ver kvs \<longrightarrow> (\<exists>r. run (ReceiptSchema ver) (VObj kvs) = Inr r)) \<and>
   (run (ReceiptSchema ver) (VObj kvs) = Inr r \<longrightarrow>
      currency (insert_row e uid body r) = VStr (spec_currency (get_prop (VObj kvs) ''currency'')) \<and>
      get_prop r ''currency'' =
        (if ver = Zod3 \<and> get_prop (VObj kvs) ''currency'' = VUndefined then VUndefined
         else VStr (spec_currency (get_prop (VObj kvs) ''currency''))))"
proof -
  have f: "run (z_optional ver (currency_schema ver)) v =
     Inr (if ver = Zod3 \<and> v = VUndefined then VUndefined else VStr (spec_currency v))" for v
    by (cases v) (simp_all add: run_currency_field spec_currency_def)
  have "currency (insert_row e uid body r) = VStr (spec_currency (get_prop (VObj kvs) ''currency'')) \<and>
      get_prop r ''currency'' =
        (if ver = Zod3 \<and> get_prop (VObj kvs) ''currency'' = VUndefined then VUndefined
         else VStr (spec_currency (get_prop (VObj kvs) ''currency'')))"
    if ok: "run (ReceiptSchema ver) (VObj kvs) = Inr r"
  proof -
    define x where "x = get_prop (VObj kvs) ''currency''"
    define y where "y = get_prop r ''currency''"
    have "run (z_optional ver (currency_schema ver)) x = Inr y"
      unfolding x_def y_def
      by (rule ReceiptSchema_field [OF ok]) (simp add: partial_receipt_shape)
    with f [of x] have m: "column (nullish y (VStr ''CAD'')) = VStr (spec_currency x) \<and>
         y = (if ver = Zod3 \<and> x = VUndefined then VUndefined else VStr (spec_currency x))"
      by (cases ver) (auto simp: nullish_def column_def spec_currency_def split: if_splits)
    have "currency (insert_row e uid body r) = column (nullish y (VStr ''CAD''))"
      by (simp add: insert_row_def y_def)
    also note m [THEN conjunct1]
    finally show ?thesis
      using m [THEN conjunct2] unfolding x_def y_def by (rule conjI)
  qed
  with ReceiptSchema_accepts [of ver kvs] show ?thesis
    by blast
qed

theorem currency_normalized_witness:
  "(\<exists>r. run (ReceiptSchema Zod4) (VObj [(''currency'', VNum (Fin 7))]) = Inr r) \<and>
   get_prop (VObj [(''currency'', VStr ''USD'')]) ''currency'' = VStr ''USD'' \<and>
   spec_currency (VStr ''usd'') = ''USD'' \<and>
   spec_currency VNull = ''CAD'' \<and>
   currency (insert_row example_env ''ann'' VNull (VObj [])) = VStr ''CAD''"
proof -
  let ?kvs = "[(''currency'', VNum (Fin 7))]"
  have u: "spec_currency (VStr ''usd'') = ''USD''"
    by code_simp
  have n: "spec_currency VUndefined = ''CAD''" "spec_currency VNull = ''CAD''"
    by (simp_all add: spec_currency_def)
  have c: "accepted_input Zod4 ?kvs"
    by (simp add: accepted_input_def total_cents_pre_def confidence_pre_def)
  note t = currency_normalized [THEN conjunct2, THEN mp]
  from currency_normalized [of Zod4 ?kvs, THEN conjunct1, THEN mp, OF c]
    t [OF eval_currency_usd, of example_env "''ann''" VNull]
    t [OF eval_empty_Zod3, of example_env "''ann''" VNull] u n
  show ?thesis by simp
qed

text \<open>Under zod 3 the record for the empty object has no currency: the normalized
  currency of an input without the key is absent, not \<^verbatim>\<open>CAD\<close>.\<close>

theorem currency_missing_key_Zod3:
  "run (ReceiptSchema Zod3) (VObj []) = Inr (VObj []) \<and>
   get_prop (VObj []) ''currency'' = VUndefined \<and>
   get_prop (VObj []) ''currency'' \<noteq> VStr ''CAD''"
  using eval_empty_Zod3 by simp

lemma json_part_is_serialized:
  "j \<noteq> VNull \<Longrightarrow> j \<noteq> VUndefined \<Longrightarrow>
   response_text stringify
     (VObj [(''output_text'', VStr []),
            (''output'', VArr [VObj [(''content'',
               VArr [VObj [(''type'', VStr ''output_json''), (''json'', j)]])]])]) = Inr (stringify j)"
  by (simp add: response_text_def array_or_empty_def trim_def)

text \<open>
  Claim C8 says that, when the top-level text is empty, a text-typed content part is
  taken only when its text is not empty, and that a JSON-typed part is serialized
  otherwise. The code takes a part of type \<^verbatim>\<open>output_text\<close> as soon as its text is a
  string (line 482 has no test of the length, where the tests of lines 473 and 488 have
  one): on an envelope whose item holds an empty text part and then a JSON part, the
  extracted text is the empty string, and the JSON part is never reached. The theorem
  evaluates the extraction on that envelope, for every JSON value \<open>j\<close> of the second part
  and every serializer.
\<close>

theorem empty_text_part_is_returned:
  "response_text stringify
     (VObj [(''output_text'', VStr []),
            (''output'', VArr [VObj [(''content'',
               VArr [VObj [(''type'', VStr ''output_text''), (''text'', VStr [])],
                     VObj [(''type'', VStr ''output_json''), (''json'', j)]])]])]) = Inr []"
  by (simp add: response_text_def array_or_empty_def trim_def)

lemma auth_ann:
  "get_user e = users_of_example \<Longrightarrow> getUserFromRequest e (request_of ''tok-ann'' j) = Inr ''ann''"
  by (simp add: getUserFromRequest_def bearer_token_def request_of_def users_of_example_def)

text \<open>
  Claim C9. For an authenticated request with a valid body, whenever a step before the
  insert fails (the signing of the URL gives an error or no URL, the model call throws,
  the extracted text is not JSON, or the normalizer refuses the parsed value), the
  pipeline returns an error response and leaves the stored state as it was: no row is
  inserted and no write reaches the database. In particular, when the model service
  never answers, or answers after more than 60000 milliseconds, the call is aborted and
  the response is the abort error with status 400, the state unchanged.
\<close>

theorem failed_step_persists_nothing:
  assumes "getUserFromRequest e req = Inr uid"
    and "json_body req = Some j"
    and "run BodySchema j = Inr body"
    and "signed = usable_url (sign_url e (bucket e) (str_of (get_prop body ''imagePath'')) 600)"
    and "signed = None
         \<or> (\<exists>url x. signed = Some url \<and>
               callOpenAiVision e url (str_of (get_prop body ''sourceType'')) = Inl x)
         \<or> (\<exists>url t. signed = Some url \<and>
               callOpenAiVision e url (str_of (get_prop body ''sourceType'')) = Inr t \<and>
               JSON_parse e t = None)
         \<or> (\<exists>url t raw x. signed = Some url \<and>
               callOpenAiVision e url (str_of (get_prop body ''sourceType'')) = Inr t \<and>
               JSON_parse e t = Some raw \<and> run (ReceiptSchema (zod e)) raw = Inl x)"
  shows "snd (POST e req w) = w \<and> is_error (fst (POST e req w)) \<and>
         ((\<exists>url key. signed = Some url \<and> openai_api_key e = Some key \<and> key \<noteq> [] \<and>
             (case settles_after (openai_service e key
                     (case openai_model e of Some m \<Rightarrow> m | None \<Rightarrow> ''gpt-4o-mini'') url
                     (str_of (get_prop body ''sourceType''))) of
                None \<Rightarrow> True
              | Some t \<Rightarrow> 60000 < t))
          \<longrightarrow> POST e req w = (Json (Err_caught AbortError) 400, w))"
proof -
  let ?st = "str_of (get_prop body ''sourceType'')"
  let ?model = "case openai_model e of Some m \<Rightarrow> m | None \<Rightarrow> ''gpt-4o-mini''"
  have same: "snd (POST e req w) = w \<and> is_error (fst (POST e req w))"
    using assms
    by (auto simp: POST_def Let_def split: option.splits sum.splits)
  have abort: "POST e req w = (Json (Err_caught AbortError) 400, w)"
    if "signed = Some url" "openai_api_key e = Some key" "key \<noteq> []"
      "case settles_after (openai_service e key ?model url ?st) of
         None \<Rightarrow> True | Some t \<Rightarrow> 60000 < t" for url key
  proof -
    from that(4) have "fetch_with_abort abort_after_ms (openai_service e key ?model url ?st) = Fetch_aborted"
      by (simp add: fetch_with_abort_def abort_after_ms_def split: option.splits)
    with that have "callOpenAiVision e url ?st = Inl AbortError"
      by (simp add: callOpenAiVision_def)
    moreover from assms(4) that(1)
    have "usable_url (sign_url e (bucket e) (str_of (get_prop body ''imagePath'')) 600) = Some url"
      by simp
    ultimately show ?thesis
      using assms(1-3) by (simp add: POST_def Let_def)
  qed
  from same abort show ?thesis by blast
qed

theorem failed_step_persists_nothing_witness:
  "POST slow_model_env
     (request_of ''tok-ann'' (VObj [(''imagePath'', VStr ''ann/x.png''), (''sourceType'', VStr ''upload'')]))
     example_world = (Json (Err_caught AbortError) 400, example_world)"
proof -
  let ?j = "VObj [(''imagePath'', VStr ''ann/x.png''), (''sourceType'', VStr ''upload'')]"
  let ?body = "VObj [(''imagePath'', VStr ''ann/x.png''), (''sourceType'', VStr ''receipt'')]"
  let ?url = "''https://storage/ann/x.png''"
  let ?model = "case openai_model slow_model_env of Some m \<Rightarrow> m | None \<Rightarrow> ''gpt-4o-mini''"
  let ?st = "str_of (get_prop ?body ''sourceType'')"
  have a: "getUserFromRequest slow_model_env (request_of ''tok-ann'' ?j) = Inr ''ann''"
    by (rule auth_ann) (simp add: slow_model_env_def example_env_def)
  have b: "json_body (request_of ''tok-ann'' ?j) = Some ?j"
    by (simp add: request_of_def)
  have c: "run BodySchema ?j = Inr ?body"
    by code_simp
  have d: "Some ?url = usable_url (sign_url slow_model_env (bucket slow_model_env)
      (str_of (get_prop ?body ''imagePath'')) 600)"
    by (simp add: slow_model_env_def example_env_def sign_of_example_def usable_url_def)
  have k: "openai_api_key slow_model_env = Some ''sk-test''"
    by (simp add: slow_model_env_def example_env_def)
  have s: "settles_after (openai_service slow_model_env ''sk-test'' ?model ?url ?st) = Some 61000"
    by (simp add: slow_model_env_def slow_service_def)
  then have g: "callOpenAiVision slow_model_env ?url ?st = Inl AbortError"
    by (simp add: callOpenAiVision_def k fetch_with_abort_def abort_after_ms_def)
  then have h: "Some ?url = None
         \<or> (\<exists>url x. Some ?url = Some url \<and> callOpenAiVision slow_model_env url ?st = Inl x)
         \<or> (\<exists>url t. Some ?url = Some url \<and> callOpenAiVision slow_model_env url ?st = Inr t \<and>
               JSON_parse slow_model_env t = None)
         \<or> (\<exists>url t raw x. Some ?url = Some url \<and> callOpenAiVision slow_model_env url ?st = Inr t \<and>
               JSON_parse slow_model_env t = Some raw \<and> run (ReceiptSchema (zod slow_model_env)) raw = Inl x)"
    by (intro disjI2 disjI1 exI [of _ ?url] exI [of _ AbortError] conjI refl)
  have x: "\<exists>url key. Some ?url = Some url \<and> openai_api_key slow_model_env = Some key \<and> key \<noteq> [] \<and>
      (case settles_after (openai_service slow_model_env key ?model url ?st) of
         None \<Rightarrow> True | Some t \<Rightarrow> 60000 < t)"
    using k s by (intro exI [of _ ?url] exI [of _ "''sk-test''"] conjI refl) simp_all
  show ?thesis
    by (rule failed_step_persists_nothing [OF a b c d h, of example_world,
          THEN conjunct2, THEN conjunct2, THEN mp, OF x])
qed

text \<open>
  Claim C10. For every authenticated request of a user: listing changes nothing, a
  listing that succeeds returns exactly the rows of that user (it does succeed, with
  status 200, when the database answers); deleting or updating a transaction id that
  exists and belongs to other users only leaves the rows and the stored images unchanged
  and gives the response \<^verbatim>\<open>Not found.\<close> with status 404 (for DELETE when the id is not
  empty and the database answers the lookup; for PATCH when the body is well formed,
  names a field to update and the database answers the update); whatever the request is,
  the rows of the other users are the same after DELETE, PATCH and POST, and a row that
  PATCH returns belongs to the caller.
\<close>

theorem transactions_are_user_scoped:
  assumes "getUserFromRequest e req = Inr uid"
  shows "snd (GET e req w) = w \<and>
    (\<forall>ts s. fst (GET e req w) = Json (Transactions ts) s \<longrightarrow>
       set ts = {t \<in> set (rows w). user_id t = uid}) \<and>
    (fault e Call_select = None \<longrightarrow> (\<exists>ts. fst (GET e req w) = Json (Transactions ts) 200)) \<and>
    (\<forall>i body. belongs_to_other i uid w \<and> json_body req = Some body \<and>
         get_prop body ''id'' = VStr i \<and> i \<noteq> [] \<longrightarrow>
       snd (DELETE e req w) = w \<and>
       (fault e Call_select = None \<longrightarrow> fst (DELETE e req w) = Json (Err ''Not found.'') 404) \<and>
       rows (snd (PATCH e req w)) = rows w \<and> objects (snd (PATCH e req w)) = objects w \<and>
       (\<forall>parsed. run (PatchBodySchema (zod e)) body = Inr parsed \<and> patch_update parsed \<noteq> [] \<and>
          fault e Call_update = None \<longrightarrow> fst (PATCH e req w) = Json (Err ''Not found.'') 404)) \<and>
    rows_of_others uid (snd (DELETE e req w)) = rows_of_others uid w \<and>
    rows_of_others uid (snd (PATCH e req w)) = rows_of_others uid w \<and>
    rows_of_others uid (snd (POST e req w)) = rows_of_others uid w \<and>
    (\<forall>t s. fst (PATCH e req w) = Json (Transaction t) s \<longrightarrow> user_id t = uid)"
proof -
  have "fault e Call_select = None \<longrightarrow> (\<exists>ts. fst (GET e req w) = Json (Transactions ts) 200)"
    using assms by (simp add: GET_def)
  with GET_scoped [OF assms, of w] DELETE_other [OF assms] PATCH_other [OF assms]
    DELETE_frame [OF assms, of w] PATCH_frame [OF assms, of w] POST_frame [OF assms, of w]
  show ?thesis
    by blast
qed

theorem transactions_are_user_scoped_witness:
  "fst (GET example_env (request_of ''tok-ann'' (VObj [(''id'', VStr ''t2''), (''merchant'', VStr ''Mine'')]))
        example_world) = Json (Transactions [example_row ''t1'' ''ann'' 10]) 200 \<and>
   DELETE example_env (request_of ''tok-ann'' (VObj [(''id'', VStr ''t2''), (''merchant'', VStr ''Mine'')]))
     example_world = (Json (Err ''Not found.'') 404, example_world) \<and>
   fst (PATCH example_env (request_of ''tok-ann'' (VObj [(''id'', VStr ''t2''), (''merchant'', VStr ''Mine'')]))
        example_world) = Json (Err ''Not found.'') 404 \<and>
   rows (snd (PATCH example_env
     (request_of ''tok-ann'' (VObj [(''id'', VStr ''t2''), (''merchant'', VStr ''Mine'')])) example_world)) =
     rows example_world"
proof -
  let ?body = "VObj [(''id'', VStr ''t2''), (''merchant'', VStr ''Mine'')]"
  let ?req = "request_of ''tok-ann'' ?body"
  have a: "getUserFromRequest example_env ?req = Inr ''ann''"
    by (rule auth_ann) (simp add: example_env_def)
  have o: "belongs_to_other ''t2'' ''ann'' example_world"
    by (simp add: belongs_to_other_def example_world_def example_row_def)
  have b: "json_body ?req = Some ?body" "get_prop ?body ''id'' = VStr ''t2''" "''t2'' \<noteq> []"
    by (simp_all add: request_of_def)
  have f: "fault example_env Call_select = None" "fault example_env Call_update = None"
    by (simp_all add: example_env_def no_fault_def)
  have p: "run (PatchBodySchema (zod example_env)) ?body = Inr ?body"
    by code_simp
  have u: "patch_update ?body \<noteq> []"
    by (simp add: patch_update_def)
  have g: "fst (GET example_env ?req example_world) =
      Json (Transactions [example_row ''t1'' ''ann'' 10]) 200"
    using a by (simp add: GET_def example_env_def no_fault_def example_world_def example_row_def)
  note t = transactions_are_user_scoped [OF a, of example_world]
  from t o b f have "snd (DELETE example_env ?req example_world) = example_world"
    and "fst (DELETE example_env ?req example_world) = Json (Err ''Not found.'') 404"
    by blast+
  then have d: "DELETE example_env ?req example_world = (Json (Err ''Not found.'') 404, example_world)"
    by (simp add: prod_eq_iff)
  from t o b f p u have "fst (PATCH example_env ?req example_world) = Json (Err ''Not found.'') 404"
    and "rows (snd (PATCH example_env ?req example_world)) = rows example_world"
    by blast+
  with g d show ?thesis by simp
qed

end
